theory Spec2Isabelle
  imports Complex_Main "HOL-Library.Word"
begin

section \<open>Configuration constants\<close>

text \<open>
  The torque sensor code of \<^verbatim>\<open>src/torque_sensor.cpp\<close> uses compile-time constants of
  \<^verbatim>\<open>ebike_controller.h\<close>. They are parameters here, under the names the code uses.
  \<^verbatim>\<open>unsigned long\<close> is 32 bits wide on the ESP32, so the timeout, which the code compares
  with a difference of two \<^verbatim>\<open>millis()\<close> values, is a 32-bit word. The other integers are
  ADC counts (12 bits) and sample counts; they are mathematical integers here, but for
  the sum of the calibration readings, which is large enough to overflow and wraps around.
  \<^verbatim>\<open>TORQUE_MAX_NM\<close> is a floating-point literal, a real number.
\<close>

record config =
  TORQUE_CALIBRATION_SAMPLES :: int
  TORQUE_CALIBRATION_TIMEOUT_MS :: "32 word"
  TORQUE_STANDSTILL_DEFAULT :: int
  TORQUE_MAX_BACKWARD :: int
  TORQUE_MAX_FORWARD :: int
  TORQUE_THRESHOLD :: int
  TORQUE_MAX_NM :: real

section \<open>Floating-point values\<close>

text \<open>
  A \<^verbatim>\<open>float\<close> is a finite value, an infinity or a NaN. The special values follow
  IEEE 754, which is what the hardware does with a zero divisor: no trap, an infinity or
  a NaN. A finite quotient or product is the exact one here, where the hardware rounds it
  to the nearest value of the format; whether a product is rounded in single or in double
  precision depends on declarations of \<^verbatim>\<open>ebike_controller.h\<close>. The claims below therefore
  state of a computed torque only what no rounding changes: that it is finite, its
  bounds after the clamp, zero, and the maximum where the quotient is at least one; the
  examples use values that single precision computes exactly.
\<close>

datatype cfloat = Finite real | PosInf | NegInf | NaN

datatype fault = IntegerDivideByZero | FloatToIntOutOfRange

fun float_of_int :: "int \<Rightarrow> cfloat" where
  "float_of_int i = Finite (of_int i)"

fun fdiv :: "cfloat \<Rightarrow> cfloat \<Rightarrow> cfloat" where
  "fdiv NaN _ = NaN"
| "fdiv _ NaN = NaN"
| "fdiv (Finite a) (Finite b) =
     (if b = 0 then (if a = 0 then NaN else if 0 < a then PosInf else NegInf)
      else Finite (a / b))"
| "fdiv (Finite a) PosInf = Finite 0"
| "fdiv (Finite a) NegInf = Finite 0"
| "fdiv PosInf (Finite b) = (if 0 \<le> b then PosInf else NegInf)"
| "fdiv NegInf (Finite b) = (if 0 \<le> b then NegInf else PosInf)"
| "fdiv PosInf PosInf = NaN"
| "fdiv PosInf NegInf = NaN"
| "fdiv NegInf PosInf = NaN"
| "fdiv NegInf NegInf = NaN"

fun fmul :: "cfloat \<Rightarrow> cfloat \<Rightarrow> cfloat" where
  "fmul NaN _ = NaN"
| "fmul _ NaN = NaN"
| "fmul (Finite a) (Finite b) = Finite (a * b)"
| "fmul (Finite a) PosInf = (if a = 0 then NaN else if 0 < a then PosInf else NegInf)"
| "fmul (Finite a) NegInf = (if a = 0 then NaN else if 0 < a then NegInf else PosInf)"
| "fmul PosInf (Finite b) = (if b = 0 then NaN else if 0 < b then PosInf else NegInf)"
| "fmul NegInf (Finite b) = (if b = 0 then NaN else if 0 < b then NegInf else PosInf)"
| "fmul PosInf PosInf = PosInf"
| "fmul PosInf NegInf = NegInf"
| "fmul NegInf PosInf = NegInf"
| "fmul NegInf NegInf = PosInf"

text \<open>Comparisons: every comparison with a NaN is false.\<close>

fun flt :: "cfloat \<Rightarrow> cfloat \<Rightarrow> bool" where
  "flt NaN _ = False"
| "flt _ NaN = False"
| "flt (Finite a) (Finite b) = (a < b)"
| "flt (Finite a) PosInf = True"
| "flt (Finite a) NegInf = False"
| "flt PosInf _ = False"
| "flt NegInf NegInf = False"
| "flt NegInf _ = True"

definition fgt :: "cfloat \<Rightarrow> cfloat \<Rightarrow> bool" where
  "fgt x y = flt y x"

text \<open>
  The cast \<^verbatim>\<open>(int)x\<close> truncates towards zero; it is undefined for a NaN, an infinity
  and a value outside the range of a 32-bit \<^verbatim>\<open>int\<close>.
\<close>

definition trunc_real :: "real \<Rightarrow> int" where
  "trunc_real r = (if 0 \<le> r then \<lfloor>r\<rfloor> else \<lceil>r\<rceil>)"

fun int_of_float :: "cfloat \<Rightarrow> fault + int" where
  "int_of_float (Finite r) =
     (if - 2147483649 < r \<and> r < 2147483648 then Inr (trunc_real r)
      else Inl FloatToIntOutOfRange)"
| "int_of_float _ = Inl FloatToIntOutOfRange"

section \<open>Integer division of C\<close>

text \<open>C's \<^verbatim>\<open>/\<close> on integers truncates towards zero and traps on a zero divisor.\<close>

definition c_quot :: "int \<Rightarrow> int \<Rightarrow> int" where
  "c_quot a b = sgn a * sgn b * (\<bar>a\<bar> div \<bar>b\<bar>)"

definition c_div :: "int \<Rightarrow> int \<Rightarrow> fault + int" where
  "c_div a b = (if b = 0 then Inl IntegerDivideByZero else Inr (c_quot a b))"

section \<open>Sensor state\<close>

text \<open>The global variables that \<^verbatim>\<open>torque_sensor.cpp\<close> reads and writes.\<close>

record sensor_state =
  debug_mode :: bool
  debug_simulate_torque :: bool
  torque_standstill_calibrated :: int
  torque_calibration_complete :: bool
  raw_torque_value :: int
  debug_torque_nm :: cfloat
  crank_torque_nm :: cfloat
  filtered_torque :: cfloat

section \<open>Calibration\<close>

text \<open>
  The hardware the calibration talks to: \<open>millis env k\<close> is what the \<open>k\<close>-th call of
  \<^verbatim>\<open>millis()\<close> returns (call 0 sets \<^verbatim>\<open>start_time\<close>, call \<open>i + 1\<close> is the timeout
  check of iteration \<open>i\<close>), and \<open>analogRead env i\<close> is the ADC reading of iteration \<open>i\<close>.
  \<^verbatim>\<open>delay\<close> only lets time pass, which the clock values show. What the code prints on
  the serial console is text for a person at the terminal and no part of the program
  state; it is left out.
\<close>

record cal_env =
  millis :: "nat \<Rightarrow> 32 word"
  analogRead :: "nat \<Rightarrow> int"

text \<open>
  \<^verbatim>\<open>long total_readings\<close> is 32 bits wide on the ESP32: an addition that leaves the range
  of a signed 32-bit integer wraps around in two's complement.
\<close>

definition wrap_long :: "int \<Rightarrow> int" where
  "wrap_long x = (x + 2147483648) mod 4294967296 - 2147483648"

function calibration_loop ::
  "config \<Rightarrow> cal_env \<Rightarrow> 32 word \<Rightarrow> nat \<Rightarrow> int \<Rightarrow> int \<Rightarrow> int \<times> int" where
  "calibration_loop cfg env start_time i total_readings valid_samples =
     (if int i < TORQUE_CALIBRATION_SAMPLES cfg then
        if millis env (Suc i) - start_time > TORQUE_CALIBRATION_TIMEOUT_MS cfg
        then (total_readings, valid_samples)
        else
          let reading = analogRead env i in
          if reading \<ge> 100 \<and> reading \<le> 3995
          then calibration_loop cfg env start_time (Suc i)
                 (wrap_long (total_readings + reading)) (valid_samples + 1)
          else calibration_loop cfg env start_time (Suc i) total_readings valid_samples
      else (total_readings, valid_samples))"
  by pat_completeness auto
termination
  by (relation "measure (\<lambda>(cfg, env, start_time, i, total_readings, valid_samples).
        nat (TORQUE_CALIBRATION_SAMPLES cfg) - i)") auto

declare calibration_loop.simps [simp del]

definition calibrate_torque_sensor ::
  "config \<Rightarrow> cal_env \<Rightarrow> sensor_state \<Rightarrow> fault + sensor_state" where
  "calibrate_torque_sensor cfg env s =
     (if debug_mode s then
        Inr (s\<lparr>torque_standstill_calibrated := TORQUE_STANDSTILL_DEFAULT cfg,
               torque_calibration_complete := True\<rparr>)
      else
        let start_time = millis env 0;
            (total_readings, valid_samples) = calibration_loop cfg env start_time 0 0 0
        in
          if valid_samples \<ge> c_quot (TORQUE_CALIBRATION_SAMPLES cfg) 2 then
            (case c_div total_readings valid_samples of
               Inl f \<Rightarrow> Inl f
             | Inr q \<Rightarrow>
                 Inr (s\<lparr>torque_standstill_calibrated := q,
                        torque_calibration_complete := True\<rparr>))
          else
            Inr (s\<lparr>torque_standstill_calibrated := TORQUE_STANDSTILL_DEFAULT cfg,
                   torque_calibration_complete := True\<rparr>))"

definition is_torque_calibration_complete :: "sensor_state \<Rightarrow> bool" where
  "is_torque_calibration_complete s = torque_calibration_complete s"

subsection \<open>The samples of a run\<close>

text \<open>
  Iteration \<open>i\<close> times out when the clock has advanced by more than the timeout since
  the start. The loop reads the ADC in every iteration before the first that times out,
  at most \<^verbatim>\<open>TORQUE_CALIBRATION_SAMPLES\<close> times, and accepts the readings in 100..3995.
\<close>

definition timed_out :: "config \<Rightarrow> cal_env \<Rightarrow> nat \<Rightarrow> bool" where
  "timed_out cfg env i \<longleftrightarrow>
     millis env (Suc i) - millis env 0 > TORQUE_CALIBRATION_TIMEOUT_MS cfg"

definition sample_in_range :: "int \<Rightarrow> bool" where
  "sample_in_range reading \<longleftrightarrow> 100 \<le> reading \<and> reading \<le> 3995"

definition samples_from :: "config \<Rightarrow> cal_env \<Rightarrow> nat \<Rightarrow> int list" where
  "samples_from cfg env i =
     map (analogRead env)
       (takeWhile (\<lambda>k. \<not> timed_out cfg env k) [i..<nat (TORQUE_CALIBRATION_SAMPLES cfg)])"

definition accepted_samples :: "config \<Rightarrow> cal_env \<Rightarrow> int list" where
  "accepted_samples cfg env = filter sample_in_range (samples_from cfg env 0)"

text \<open>The mean of the spec, rounded to the nearest integer.\<close>

definition rounded_mean :: "int list \<Rightarrow> int" where
  "rounded_mean xs = round (real_of_int (sum_list xs) / real (length xs))"

section \<open>Torque evaluation\<close>

text \<open>
  \<^verbatim>\<open>update_torque\<close> runs once per control cycle. \<open>adc\<close> is what
  \<^verbatim>\<open>analogRead(TORQUE_SENSOR_PIN)\<close> returns in this cycle (read on the sensor path only).
  \<^verbatim>\<open>update_debug_simulation\<close> is defined outside \<^verbatim>\<open>torque_sensor.cpp\<close>; it is a
  parameter, any function on the state.
\<close>

definition update_torque ::
  "config \<Rightarrow> (sensor_state \<Rightarrow> sensor_state) \<Rightarrow> int \<Rightarrow> sensor_state \<Rightarrow> fault + sensor_state" where
  "update_torque cfg update_debug_simulation adc s =
     (if debug_mode s \<and> debug_simulate_torque s then
        let s1 = update_debug_simulation s;
            s2 = s1\<lparr>crank_torque_nm := debug_torque_nm s1\<rparr>;
            s3 = s2\<lparr>filtered_torque := debug_torque_nm s2\<rparr>
        in
          if fgt (debug_torque_nm s3) (Finite 0) then
            let torque_ratio = fdiv (debug_torque_nm s3) (Finite (TORQUE_MAX_NM cfg));
                max_deviation = max (torque_standstill_calibrated s3 - TORQUE_MAX_BACKWARD cfg)
                                    (TORQUE_MAX_FORWARD cfg - torque_standstill_calibrated s3)
            in
              (case int_of_float (fmul torque_ratio (float_of_int max_deviation)) of
                 Inl f \<Rightarrow> Inl f
               | Inr simulated_deviation \<Rightarrow>
                   Inr (s3\<lparr>raw_torque_value :=
                             torque_standstill_calibrated s3 + simulated_deviation\<rparr>))
          else Inr (s3\<lparr>raw_torque_value := torque_standstill_calibrated s3\<rparr>)
      else
        let s1 = s\<lparr>raw_torque_value := adc\<rparr>;
            deviation_from_center = raw_torque_value s1 - torque_standstill_calibrated s1;
            absolute_deviation = \<bar>deviation_from_center\<bar>;
            s2 = (if absolute_deviation < TORQUE_THRESHOLD cfg
                  then s1\<lparr>crank_torque_nm := Finite 0\<rparr>
                  else
                    let max_deviation =
                          max (torque_standstill_calibrated s1 - TORQUE_MAX_BACKWARD cfg)
                              (TORQUE_MAX_FORWARD cfg - torque_standstill_calibrated s1)
                    in s1\<lparr>crank_torque_nm :=
                            fmul (fdiv (float_of_int absolute_deviation)
                                       (float_of_int max_deviation))
                                 (Finite (TORQUE_MAX_NM cfg))\<rparr>);
            s3 = (if fgt (crank_torque_nm s2) (Finite (TORQUE_MAX_NM cfg))
                  then s2\<lparr>crank_torque_nm := Finite (TORQUE_MAX_NM cfg)\<rparr> else s2);
            s4 = (if flt (crank_torque_nm s3) (Finite 0)
                  then s3\<lparr>crank_torque_nm := Finite 0\<rparr> else s3)
        in Inr (s4\<lparr>filtered_torque := crank_torque_nm s4\<rparr>))"

text \<open>The torque a cycle reports: the \<open>evaluate(raw, baseline).torque_nm\<close> of the spec.\<close>

definition evaluate ::
  "config \<Rightarrow> (sensor_state \<Rightarrow> sensor_state) \<Rightarrow> int \<Rightarrow> sensor_state \<Rightarrow> fault + cfloat" where
  "evaluate cfg update_debug_simulation adc s =
     map_sum id crank_torque_nm (update_torque cfg update_debug_simulation adc s)"

text \<open>
  The largest deviation from the baseline the code scales with, the \<open>max_extent\<close> of the
  spec: the expression that \<^verbatim>\<open>update_torque\<close> binds to \<^verbatim>\<open>max_deviation\<close>.
\<close>

definition max_extent :: "config \<Rightarrow> int \<Rightarrow> int" where
  "max_extent cfg baseline =
     max (baseline - TORQUE_MAX_BACKWARD cfg) (TORQUE_MAX_FORWARD cfg - baseline)"

text \<open>The sensor path of \<^verbatim>\<open>update_torque\<close> as one expression of baseline and reading.\<close>

definition sensor_torque :: "config \<Rightarrow> int \<Rightarrow> int \<Rightarrow> cfloat" where
  "sensor_torque cfg baseline adc =
    (let t = (if \<bar>adc - baseline\<bar> < TORQUE_THRESHOLD cfg then Finite 0
              else fmul (fdiv (float_of_int \<bar>adc - baseline\<bar>)
                              (float_of_int (max_extent cfg baseline)))
                        (Finite (TORQUE_MAX_NM cfg)));
         t1 = (if fgt t (Finite (TORQUE_MAX_NM cfg)) then Finite (TORQUE_MAX_NM cfg) else t)
     in if flt t1 (Finite 0) then Finite 0 else t1)"

section \<open>The BLE mode control\<close>

text \<open>
  \<^verbatim>\<open>EBikeModeControlCallbacks::onWrite\<close> of \<^verbatim>\<open>src/ble_telemetry.cpp\<close>. The profile table
  (\<^verbatim>\<open>NUM_ACTIVE_PROFILES\<close>, \<^verbatim>\<open>AVAILABLE_PROFILES\<close>) is declared outside the sources at
  hand and is a parameter. The callback's effects are its calls of collaborators, in
  order: the serial console, \<^verbatim>\<open>changeAssistMode\<close> and \<^verbatim>\<open>addLogMessage\<close>.
\<close>

record profile_table =
  NUM_ACTIVE_PROFILES :: int
  AVAILABLE_PROFILES_name :: "nat \<Rightarrow> string"

datatype ble_call =
    Serial_printf string "int list"
  | ChangeAssistMode int
  | AddLogMessage string

text \<open>\<^verbatim>\<open>String(n)\<close> of Arduino for an unsigned value: its decimal digits.\<close>

function String_of_nat :: "nat \<Rightarrow> string" where
  "String_of_nat n =
     (if n < 10 then [char_of (48 + n)]
      else String_of_nat (n div 10) @ [char_of (48 + n mod 10)])"
  by pat_completeness auto
termination
  by (relation "measure id") auto

text \<open>
  \<open>val\<close> is the written value, a string of bytes; \<^verbatim>\<open>uint8_t new_mode = value[0]\<close> is
  its first byte, compared as an \<^verbatim>\<open>int\<close>.
\<close>

definition EBikeModeControlCallbacks_onWrite ::
  "profile_table \<Rightarrow> 8 word list \<Rightarrow> ble_call list" where
  "EBikeModeControlCallbacks_onWrite profiles val =
     (if length val > 0 then
        let new_mode = val ! 0 in
        if uint new_mode < NUM_ACTIVE_PROFILES profiles then
          [Serial_printf ''BLE: Mode change request to %d\<newline>'' [uint new_mode],
           ChangeAssistMode (uint new_mode),
           AddLogMessage (''BLE Mode changed to: '' @
             AVAILABLE_PROFILES_name profiles (unat new_mode))]
        else
          [Serial_printf ''BLE: Invalid mode %d requested\<newline>'' [uint new_mode],
           AddLogMessage (''BLE Invalid mode requested: '' @ String_of_nat (unat new_mode))]
      else [])"

text \<open>
  What a sequence of calls does to the rest of the program: only \<^verbatim>\<open>changeAssistMode\<close>,
  whatever it is, acts on it; the console prints, and \<^verbatim>\<open>addLogMessage\<close> has an empty
  body (\<^verbatim>\<open>src/wifi_telemetry.cpp\<close>).
\<close>

fun perform :: "(int \<Rightarrow> 'w \<Rightarrow> 'w) \<Rightarrow> ble_call \<Rightarrow> 'w \<Rightarrow> 'w" where
  "perform changeAssistMode (ChangeAssistMode m) w = changeAssistMode m w"
| "perform changeAssistMode (Serial_printf fmt args) w = w"
| "perform changeAssistMode (AddLogMessage msg) w = w"

definition perform_all :: "(int \<Rightarrow> 'w \<Rightarrow> 'w) \<Rightarrow> ble_call list \<Rightarrow> 'w \<Rightarrow> 'w" where
  "perform_all changeAssistMode calls w = fold (perform changeAssistMode) calls w"

section \<open>The shared telemetry\<close>

text \<open>
  The fields of \<^verbatim>\<open>sharedVescData\<close> and \<^verbatim>\<open>sharedSensorData\<close> that the telemetry tasks
  read, and the one semaphore \<^verbatim>\<open>dataUpdateSemaphore\<close>. A task is the sequence of its
  accesses to them, one \<open>Load\<close> for every statement that reads a field, in the order of
  the source. Each field holds the number of the write transaction that wrote it last.
\<close>

datatype shared_field =
    Speed_kmh | Battery_voltage | Battery_percentage | Actual_current | Rpm | Duty_cycle
  | Temp_mosfet | Temp_motor | Amp_hours | Watt_hours
  | Cadence_rpm | Filtered_torque | Current_mode | Motor_enabled

datatype instr =
    SemaphoreTake nat
  | SemaphoreGive
  | Load shared_field
  | Store shared_field nat

text \<open>\<^verbatim>\<open>handleStatusAPI\<close> of \<^verbatim>\<open>src/wifi_telemetry.cpp\<close>: four reads, no semaphore.\<close>

definition handleStatusAPI :: "instr list" where
  "handleStatusAPI =
     [Load Speed_kmh, Load Battery_percentage, Load Current_mode, Load Filtered_torque]"

text \<open>
  \<^verbatim>\<open>updateBLETelemetryData\<close> of \<^verbatim>\<open>src/ble_telemetry.cpp\<close>: the body runs when
  \<^verbatim>\<open>xSemaphoreTake(dataUpdateSemaphore, pdMS_TO_TICKS(10))\<close> succeeds; it gives the
  semaphore back at once when a characteristic is missing, and after its reads otherwise.
\<close>

definition updateBLETelemetryData :: "bool \<Rightarrow> instr list" where
  "updateBLETelemetryData characteristics_initialized =
     SemaphoreTake 10 #
       (if \<not> characteristics_initialized then [SemaphoreGive]
        else
          [Load Speed_kmh, Load Cadence_rpm, Load Filtered_torque, Load Battery_percentage,
           Load Actual_current, Load Actual_current,
           Load Current_mode, Load Current_mode, Load Current_mode, Load Motor_enabled,
           Load Actual_current, Load Battery_voltage,
           Load Temp_mosfet, Load Temp_motor,
           SemaphoreGive])"

text \<open>\<^verbatim>\<open>updateBLEVescData\<close> of \<^verbatim>\<open>src/ble_telemetry.cpp\<close>.\<close>

definition updateBLEVescData :: "instr list" where
  "updateBLEVescData =
     [SemaphoreTake 10, Load Rpm, Load Duty_cycle, Load Temp_mosfet, Load Temp_motor,
      Load Battery_voltage, Load Amp_hours, Load Watt_hours, SemaphoreGive]"

text \<open>
  Modelled from the spec: the producer operation \<open>publish_controller\<close>, whose code is not
  in the sources at hand. It "acquires exclusive access, applies its field updates
  atomically as a single transaction, and releases"; transaction \<open>k\<close> writes \<open>k\<close> into
  every field of the motor-controller group.
\<close>

definition publish_controller :: "nat \<Rightarrow> instr list" where
  "publish_controller k =
     [SemaphoreTake 10, Store Speed_kmh k, Store Battery_voltage k, Store Battery_percentage k,
      Store Actual_current k, Store Rpm k, Store Duty_cycle k, Store Temp_mosfet k,
      Store Temp_motor k, Store Amp_hours k, Store Watt_hours k, SemaphoreGive]"

text \<open>
  The lock discipline of a task: every access to a shared field lies between a take and
  the next give of the semaphore.
\<close>

fun guarded_from :: "bool \<Rightarrow> instr list \<Rightarrow> bool" where
  "guarded_from held [] = True"
| "guarded_from held (SemaphoreTake ms # p) = guarded_from True p"
| "guarded_from held (SemaphoreGive # p) = guarded_from False p"
| "guarded_from held (Load f # p) = (held \<and> guarded_from held p)"
| "guarded_from held (Store f v # p) = (held \<and> guarded_from held p)"

definition lock_disciplined :: "instr list \<Rightarrow> bool" where
  "lock_disciplined p = guarded_from False p"

text \<open>
  Tasks running interleaved. A step runs the next access of one task. A task that finds
  the semaphore held until its timeout expires abandons its cycle, as the
  \<^verbatim>\<open>if (xSemaphoreTake(...) == pdTRUE)\<close> around each body does. \<open>observed\<close> collects what
  a task has read, field by field.
\<close>

record task =
  program :: "instr list"
  observed :: "(shared_field \<times> nat) list"

record system =
  store :: "shared_field \<Rightarrow> nat"
  holder :: "nat option"
  tasks :: "task list"

definition step :: "nat \<Rightarrow> system \<Rightarrow> system" where
  "step i sys =
     (if i < length (tasks sys) then
        let t = tasks sys ! i in
        (case program t of
           [] \<Rightarrow> sys
         | SemaphoreTake ms # rest \<Rightarrow>
             (case holder sys of
                None \<Rightarrow> sys\<lparr>holder := Some i, tasks := (tasks sys)[i := t\<lparr>program := rest\<rparr>]\<rparr>
              | Some j \<Rightarrow> sys\<lparr>tasks := (tasks sys)[i := t\<lparr>program := []\<rparr>]\<rparr>)
         | SemaphoreGive # rest \<Rightarrow>
             sys\<lparr>holder := None, tasks := (tasks sys)[i := t\<lparr>program := rest\<rparr>]\<rparr>
         | Load f # rest \<Rightarrow>
             sys\<lparr>tasks := (tasks sys)[i := t\<lparr>program := rest,
                                             observed := observed t @ [(f, store sys f)]\<rparr>]\<rparr>
         | Store f v # rest \<Rightarrow>
             sys\<lparr>store := (store sys)(f := v),
                 tasks := (tasks sys)[i := t\<lparr>program := rest\<rparr>]\<rparr>)
      else sys)"

definition run :: "nat list \<Rightarrow> system \<Rightarrow> system" where
  "run schedule sys = fold step schedule sys"

text \<open>
  Task 0 is a producer and task 1 a consumer; every field holds the values of
  transaction 1 and the semaphore is free.
\<close>

definition start :: "instr list \<Rightarrow> instr list \<Rightarrow> system" where
  "start producer consumer =
     \<lparr>store = (\<lambda>f. 1), holder = None,
      tasks = [\<lparr>program = producer, observed = []\<rparr>,
               \<lparr>program = consumer, observed = []\<rparr>]\<rparr>"

subsection \<open>Tearing\<close>

text \<open>
  The fields of the motor-controller group, in the order in which a producer transaction
  writes them, and a producer that runs one transaction after the other.
\<close>

definition vesc_fields :: "shared_field list" where
  "vesc_fields =
     [Speed_kmh, Battery_voltage, Battery_percentage, Actual_current, Rpm, Duty_cycle,
      Temp_mosfet, Temp_motor, Amp_hours, Watt_hours]"

definition producer :: "nat list \<Rightarrow> instr list" where
  "producer ks = concat (map publish_controller ks)"

text \<open>
  A reader that takes the semaphore, reads the fields \<open>gs\<close> and gives the semaphore
  back: the shape of both BLE tasks.
\<close>

definition guarded_reader :: "shared_field list \<Rightarrow> instr list" where
  "guarded_reader gs = SemaphoreTake 10 # map Load gs @ [SemaphoreGive]"

text \<open>
  What a task has read is untorn when the values it has of the motor-controller group
  all come from one transaction.
\<close>

definition untorn :: "(shared_field \<times> nat) list \<Rightarrow> bool" where
  "untorn obs \<longleftrightarrow>
     (let vs = map snd (filter (\<lambda>x. fst x \<in> set vesc_fields) obs)
      in list_all (\<lambda>v. v = hd vs) vs)"

text \<open>
  The invariant of a producer (task 0) running next to a guarded reader (task 1). The
  producer is between two transactions, or it holds the semaphore and has written the
  fields \<open>done\<close> of its transaction. The reader waits, or it holds the semaphore and what
  it has read is what the store holds, or it is through. The store holds one transaction
  whenever the producer does not hold the semaphore.
\<close>

definition uniform :: "(shared_field \<Rightarrow> nat) \<Rightarrow> bool" where
  "uniform st \<longleftrightarrow> (\<exists>k. \<forall>f \<in> set vesc_fields. st f = k)"

definition prod_ok :: "nat option \<Rightarrow> (shared_field \<Rightarrow> nat) \<Rightarrow> instr list \<Rightarrow> bool" where
  "prod_ok h st p \<longleftrightarrow>
     (h \<noteq> Some 0 \<and> (\<exists>ks. p = producer ks)) \<or>
     (h = Some 0 \<and> (\<exists>k done todo ks. vesc_fields = done @ todo \<and>
        p = map (\<lambda>f. Store f k) todo @ SemaphoreGive # producer ks \<and>
        (\<forall>f \<in> set done. st f = k)))"

definition cons_ok ::
  "shared_field list \<Rightarrow> nat option \<Rightarrow> (shared_field \<Rightarrow> nat) \<Rightarrow> instr list \<Rightarrow>
   (shared_field \<times> nat) list \<Rightarrow> bool" where
  "cons_ok gs h st c obs \<longleftrightarrow>
     (h \<noteq> Some 1 \<and> c = guarded_reader gs \<and> obs = []) \<or>
     (h = Some 1 \<and> (\<exists>done todo. gs = done @ todo \<and>
        c = map Load todo @ [SemaphoreGive] \<and> obs = map (\<lambda>f. (f, st f)) done)) \<or>
     (h \<noteq> Some 1 \<and> c = [] \<and> untorn obs)"

definition tear_inv :: "shared_field list \<Rightarrow> system \<Rightarrow> bool" where
  "tear_inv gs sys \<longleftrightarrow>
     (\<exists>st h p po c obs.
        sys = \<lparr>store = st, holder = h,
               tasks = [\<lparr>program = p, observed = po\<rparr>, \<lparr>program = c, observed = obs\<rparr>]\<rparr> \<and>
        prod_ok h st p \<and> cons_ok gs h st c obs \<and>
        (h \<noteq> Some 0 \<longrightarrow> uniform st) \<and> (h = None \<or> h = Some 0 \<or> h = Some 1))"

subsection \<open>A bench configuration\<close>

text \<open>
  Concrete values for the examples: five calibration samples, a clock that stands still
  unless said otherwise, and the state at boot.
\<close>

definition bench_config :: config where
  "bench_config =
     \<lparr>TORQUE_CALIBRATION_SAMPLES = 5, TORQUE_CALIBRATION_TIMEOUT_MS = 5000,
      TORQUE_STANDSTILL_DEFAULT = 2048, TORQUE_MAX_BACKWARD = 0, TORQUE_MAX_FORWARD = 3072,
      TORQUE_THRESHOLD = 50, TORQUE_MAX_NM = 100\<rparr>"

definition env_of_samples :: "int list \<Rightarrow> cal_env" where
  "env_of_samples xs =
     \<lparr>millis = (\<lambda>k. 1000), analogRead = (\<lambda>i. if i < length xs then xs ! i else 0)\<rparr>"

definition boot_state :: sensor_state where
  "boot_state =
     \<lparr>debug_mode = False, debug_simulate_torque = False,
      torque_standstill_calibrated = 2048, torque_calibration_complete = False,
      raw_torque_value = 0, debug_torque_nm = Finite 0, crank_torque_nm = Finite 0,
      filtered_torque = Finite 0\<rparr>"

text \<open>
  Limits that coincide with the default baseline, so that the largest deviation is zero;
  and the state and the simulation step of a debug run with a simulated torque.
\<close>

definition degenerate_config :: config where
  "degenerate_config = bench_config\<lparr>TORQUE_MAX_BACKWARD := 2048, TORQUE_MAX_FORWARD := 2048\<rparr>"

definition sim_state :: sensor_state where
  "sim_state = boot_state\<lparr>debug_mode := True, debug_simulate_torque := True\<rparr>"

definition sim_target :: "real \<Rightarrow> sensor_state \<Rightarrow> sensor_state" where
  "sim_target t s = s\<lparr>debug_torque_nm := Finite t\<rparr>"

text \<open>A profile table with three profiles.\<close>

definition bench_profiles :: profile_table where
  "bench_profiles =
     \<lparr>NUM_ACTIVE_PROFILES = 3,
      AVAILABLE_PROFILES_name = (\<lambda>i. [''No Assist'', ''Eco'', ''Turbo''] ! i)\<rparr>"

text \<open>
  A run of 600000 samples with a steady sensor: long enough for the sum of the readings
  to leave the range of a \<^verbatim>\<open>long\<close>. The timeout is the largest value of an
  \<^verbatim>\<open>unsigned long\<close>, which no difference of clock values exceeds.
\<close>

definition long_config :: config where
  "long_config = bench_config\<lparr>TORQUE_CALIBRATION_SAMPLES := 600000,
     TORQUE_CALIBRATION_TIMEOUT_MS := 4294967295\<rparr>"

definition env_steady :: "int \<Rightarrow> cal_env" where
  "env_steady reading = \<lparr>millis = (\<lambda>k. 1000), analogRead = (\<lambda>i. reading)\<rparr>"

text \<open>
  A slow clock that starts one second before the 32-bit counter wraps around and
  advances by three seconds per iteration, with a steady sensor.
\<close>

definition env_slow :: cal_env where
  "env_slow = \<lparr>millis = (\<lambda>k. 4294966296 + 3000 * of_nat k), analogRead = (\<lambda>i. 2000)\<rparr>"

section \<open>The calibration loop computes the sum and the count of the accepted samples\<close>

lemma samples_from_step:
  assumes "int i < TORQUE_CALIBRATION_SAMPLES cfg"
  shows "samples_from cfg env i =
    (if timed_out cfg env i then [] else analogRead env i # samples_from cfg env (Suc i))"
proof -
  from assms have "i < nat (TORQUE_CALIBRATION_SAMPLES cfg)" by linarith
  then have "[i..<nat (TORQUE_CALIBRATION_SAMPLES cfg)] =
      i # [Suc i..<nat (TORQUE_CALIBRATION_SAMPLES cfg)]"
    by (rule upt_conv_Cons)
  then show ?thesis by (simp add: samples_from_def)
qed

lemma samples_from_done:
  assumes "\<not> int i < TORQUE_CALIBRATION_SAMPLES cfg"
  shows "samples_from cfg env i = []"
proof -
  from assms have "nat (TORQUE_CALIBRATION_SAMPLES cfg) \<le> i" by linarith
  then show ?thesis by (simp add: samples_from_def)
qed

text \<open>The wrap-around leaves a sum in the range of a \<^verbatim>\<open>long\<close> as it is.\<close>

lemma wrap_long_id: "- 2147483648 \<le> x \<Longrightarrow> x \<le> 2147483647 \<Longrightarrow> wrap_long x = x"
  by (simp add: wrap_long_def)

lemma wrap_long_add: "wrap_long (wrap_long x + y) = wrap_long (x + y)"
proof -
  have "(wrap_long x + y + 2147483648) mod 4294967296 =
      ((x + 2147483648) mod 4294967296 + y) mod 4294967296"
    by (simp add: wrap_long_def)
  also have "\<dots> = (x + 2147483648 + y) mod 4294967296"
    by (rule mod_add_left_eq)
  also have "x + 2147483648 + y = x + y + 2147483648"
    by simp
  finally show ?thesis by (simp add: wrap_long_def)
qed

lemma wrap_long_idem: "wrap_long (wrap_long x) = wrap_long x"
  using wrap_long_add [of x 0] by simp

lemma calibration_loop_from:
  assumes "start_time = millis env 0"
    and "wrap_long total_readings = total_readings"
  shows "calibration_loop cfg env start_time i total_readings valid_samples =
     (wrap_long (total_readings + sum_list (filter sample_in_range (samples_from cfg env i))),
      valid_samples + int (length (filter sample_in_range (samples_from cfg env i))))"
  using assms
proof (induction cfg env start_time i total_readings valid_samples
    rule: calibration_loop.induct)
  case (1 cfg env start_time i total_readings valid_samples)
  note start = \<open>start_time = millis env 0\<close>
  note wrapped = \<open>wrap_long total_readings = total_readings\<close>
  show ?case
  proof (cases "int i < TORQUE_CALIBRATION_SAMPLES cfg")
    case False
    then show ?thesis
      by (subst calibration_loop.simps) (simp add: samples_from_done wrapped)
  next
    case running: True
    show ?thesis
    proof (cases "timed_out cfg env i")
      case True
      with running start show ?thesis
        by (subst calibration_loop.simps)
          (simp add: samples_from_step timed_out_def wrapped)
    next
      case False
      with start have clock:
        "\<not> millis env (Suc i) - start_time > TORQUE_CALIBRATION_TIMEOUT_MS cfg"
        by (simp add: timed_out_def)
      have step: "calibration_loop cfg env start_time i total_readings valid_samples =
          (if sample_in_range (analogRead env i)
           then calibration_loop cfg env start_time (Suc i)
                  (wrap_long (total_readings + analogRead env i)) (valid_samples + 1)
           else calibration_loop cfg env start_time (Suc i) total_readings valid_samples)"
        using running clock
        by (subst calibration_loop.simps) (simp add: sample_in_range_def Let_def)
      show ?thesis
      proof (cases "sample_in_range (analogRead env i)")
        case True
        then have r: "analogRead env i \<ge> 100 \<and> analogRead env i \<le> 3995"
          by (simp add: sample_in_range_def)
        have "calibration_loop cfg env start_time (Suc i)
                (wrap_long (total_readings + analogRead env i)) (valid_samples + 1) =
              (wrap_long (wrap_long (total_readings + analogRead env i) +
                 sum_list (filter sample_in_range (samples_from cfg env (Suc i)))),
               valid_samples + 1 +
                 int (length (filter sample_in_range (samples_from cfg env (Suc i)))))"
          by (rule "1.IH"(1) [OF running clock refl r start wrap_long_idem])
        with step True False running show ?thesis
          by (simp add: samples_from_step wrap_long_add add.assoc)
      next
        case nok: False
        then have r: "\<not> (analogRead env i \<ge> 100 \<and> analogRead env i \<le> 3995)"
          by (simp add: sample_in_range_def)
        have "calibration_loop cfg env start_time (Suc i) total_readings valid_samples =
              (wrap_long (total_readings +
                 sum_list (filter sample_in_range (samples_from cfg env (Suc i)))),
               valid_samples +
                 int (length (filter sample_in_range (samples_from cfg env (Suc i)))))"
          by (rule "1.IH"(2) [OF running clock refl r start wrapped])
        with step nok False running show ?thesis
          by (simp add: samples_from_step)
      qed
    qed
  qed
qed

lemma calibration_loop_accepted:
  "calibration_loop cfg env (millis env 0) 0 0 0 =
     (wrap_long (sum_list (accepted_samples cfg env)),
      int (length (accepted_samples cfg env)))"
  by (simp add: calibration_loop_from accepted_samples_def wrap_long_def)

lemma sum_list_in_range:
  "\<forall>x \<in> set xs. sample_in_range x \<Longrightarrow>
     100 * int (length xs) \<le> sum_list xs \<and> sum_list xs \<le> 3995 * int (length xs)"
  by (induction xs) (auto simp: sample_in_range_def)

lemma accepted_sum_bounds:
  "100 * int (length (accepted_samples cfg env)) \<le> sum_list (accepted_samples cfg env) \<and>
   sum_list (accepted_samples cfg env) \<le> 3995 * int (length (accepted_samples cfg env))"
  by (rule sum_list_in_range) (simp add: accepted_samples_def)

text \<open>
  No more samples are accepted than the loop has iterations, so the sum stays in the
  range of a \<^verbatim>\<open>long\<close> when 3995 times the sample count does.
\<close>

lemma accepted_length_le:
  "length (accepted_samples cfg env) \<le> nat (TORQUE_CALIBRATION_SAMPLES cfg)"
proof -
  have "length (accepted_samples cfg env) \<le> length (samples_from cfg env 0)"
    by (simp add: accepted_samples_def)
  also have "\<dots> \<le> length [0..<nat (TORQUE_CALIBRATION_SAMPLES cfg)]"
    unfolding samples_from_def length_map by (rule length_takeWhile_le)
  finally show ?thesis by simp
qed

lemma accepted_sum_fits:
  assumes "3995 * TORQUE_CALIBRATION_SAMPLES cfg \<le> 2147483647"
  shows "wrap_long (sum_list (accepted_samples cfg env)) = sum_list (accepted_samples cfg env)"
proof -
  let ?acc = "accepted_samples cfg env"
  have b: "100 * int (length ?acc) \<le> sum_list ?acc \<and> sum_list ?acc \<le> 3995 * int (length ?acc)"
    by (rule accepted_sum_bounds)
  have len: "int (length ?acc) \<le> int (nat (TORQUE_CALIBRATION_SAMPLES cfg))"
    using accepted_length_le [of cfg env] by (simp only: of_nat_le_iff)
  have "3995 * int (length ?acc) \<le> 2147483647"
  proof (cases "0 \<le> TORQUE_CALIBRATION_SAMPLES cfg")
    case True
    with len have "int (length ?acc) \<le> TORQUE_CALIBRATION_SAMPLES cfg" by simp
    with assms show ?thesis by linarith
  next
    case False
    with len have "int (length ?acc) \<le> 0" by simp
    then show ?thesis by linarith
  qed
  with b have "sum_list ?acc \<le> 2147483647" by linarith
  moreover have "0 \<le> sum_list ?acc" using b by linarith
  ultimately show ?thesis by (simp add: wrap_long_id)
qed

lemma c_quot_nonneg: "0 \<le> a \<Longrightarrow> 0 < b \<Longrightarrow> c_quot a b = a div b"
  by (cases "a = 0") (simp_all add: c_quot_def)

lemma half_le: "0 < n \<Longrightarrow> n \<le> 2 * k \<Longrightarrow> c_quot n 2 \<le> k"
  by (simp add: c_quot_def)

text \<open>
  At least half of a positive number of samples: the test \<^verbatim>\<open>valid_samples >= N / 2\<close>
  holds and a sample is there to divide by.
\<close>

lemma at_least_half:
  assumes "0 < TORQUE_CALIBRATION_SAMPLES cfg"
    and "TORQUE_CALIBRATION_SAMPLES cfg \<le> 2 * int (length (accepted_samples cfg env))"
  shows "c_quot (TORQUE_CALIBRATION_SAMPLES cfg) 2 \<le> int (length (accepted_samples cfg env))"
    and "accepted_samples cfg env \<noteq> []"
proof -
  from assms show "c_quot (TORQUE_CALIBRATION_SAMPLES cfg) 2
      \<le> int (length (accepted_samples cfg env))"
    by (rule half_le)
  from assms show "accepted_samples cfg env \<noteq> []" by auto
qed

lemma below_half: "k < n div 2 \<Longrightarrow> k < c_quot n 2" for k n :: int
  by (cases "0 \<le> n") (auto simp: c_quot_def sgn_if)

lemma floor_mean: "\<lfloor>real_of_int a / real n\<rfloor> = a div int n"
proof -
  have "real_of_int a / real n = real_of_int a / real_of_int (int n)" by simp
  then show ?thesis by (simp only: floor_divide_of_int_eq)
qed

subsection \<open>The two branches after the loop\<close>

lemma calibrate_success:
  assumes "\<not> debug_mode s"
    and "3995 * TORQUE_CALIBRATION_SAMPLES cfg \<le> 2147483647"
    and "c_quot (TORQUE_CALIBRATION_SAMPLES cfg) 2 \<le> int (length (accepted_samples cfg env))"
    and "accepted_samples cfg env \<noteq> []"
  shows "calibrate_torque_sensor cfg env s =
     Inr (s\<lparr>torque_standstill_calibrated :=
              sum_list (accepted_samples cfg env) div int (length (accepted_samples cfg env)),
            torque_calibration_complete := True\<rparr>)"
proof -
  let ?acc = "accepted_samples cfg env"
  from assms(4) have pos: "0 < int (length ?acc)" by simp
  have "0 \<le> sum_list ?acc" using accepted_sum_bounds [of cfg env] pos by linarith
  then have q: "c_quot (sum_list ?acc) (int (length ?acc)) = sum_list ?acc div int (length ?acc)"
    using pos by (rule c_quot_nonneg)
  note fits = accepted_sum_fits [OF assms(2), of env]
  show ?thesis
    using assms(1,3) pos q
    by (simp add: calibrate_torque_sensor_def calibration_loop_accepted fits c_div_def)
qed

lemma calibrate_fallback:
  assumes "\<not> debug_mode s"
    and "int (length (accepted_samples cfg env)) < c_quot (TORQUE_CALIBRATION_SAMPLES cfg) 2"
  shows "calibrate_torque_sensor cfg env s =
     Inr (s\<lparr>torque_standstill_calibrated := TORQUE_STANDSTILL_DEFAULT cfg,
            torque_calibration_complete := True\<rparr>)"
  using assms by (simp add: calibrate_torque_sensor_def calibration_loop_accepted)

text \<open>Debug mode skips the sampling and takes the default.\<close>

lemma calibrate_debug:
  "debug_mode s \<Longrightarrow> calibrate_torque_sensor cfg env s =
     Inr (s\<lparr>torque_standstill_calibrated := TORQUE_STANDSTILL_DEFAULT cfg,
            torque_calibration_complete := True\<rparr>)"
  by (simp add: calibrate_torque_sensor_def)

subsection \<open>The bench configuration\<close>

lemma bench_config_fields [simp]:
  "TORQUE_CALIBRATION_SAMPLES bench_config = 5"
  "TORQUE_CALIBRATION_TIMEOUT_MS bench_config = 5000"
  "TORQUE_STANDSTILL_DEFAULT bench_config = 2048"
  "TORQUE_MAX_BACKWARD bench_config = 0"
  "TORQUE_MAX_FORWARD bench_config = 3072"
  "TORQUE_THRESHOLD bench_config = 50"
  "TORQUE_MAX_NM bench_config = 100"
  by (simp_all add: bench_config_def)

lemma boot_state_fields [simp]:
  "debug_mode boot_state = False"
  "debug_simulate_torque boot_state = False"
  "torque_standstill_calibrated boot_state = 2048"
  by (simp_all add: boot_state_def)

text \<open>With the clock standing still, every sample of a list of five is read.\<close>

lemma bench_samples:
  "samples_from bench_config (env_of_samples [a, b, c, d, e]) 0 = [a, b, c, d, e]"
  by (simp add: samples_from_def env_of_samples_def timed_out_def upt_conv_Cons)

text \<open>With the clock standing still and a steady sensor, every iteration reads the same.\<close>

lemma steady_samples:
  "samples_from cfg (env_steady reading) 0 =
     replicate (nat (TORQUE_CALIBRATION_SAMPLES cfg)) reading"
proof -
  have "\<not> timed_out cfg (env_steady reading) k" for k
    by (simp add: timed_out_def env_steady_def)
  then have all: "takeWhile (\<lambda>k. \<not> timed_out cfg (env_steady reading) k)
      [0..<nat (TORQUE_CALIBRATION_SAMPLES cfg)] = [0..<nat (TORQUE_CALIBRATION_SAMPLES cfg)]"
    by (simp add: takeWhile_eq_all_conv)
  have rd: "analogRead (env_steady reading) = (\<lambda>i. reading)"
    by (simp add: env_steady_def)
  show ?thesis
    unfolding samples_from_def all rd by (simp add: map_replicate_const)
qed

lemma steady_accepted:
  assumes "sample_in_range reading"
  shows "sum_list (accepted_samples cfg (env_steady reading)) =
      int (nat (TORQUE_CALIBRATION_SAMPLES cfg)) * reading"
    and "length (accepted_samples cfg (env_steady reading)) =
      nat (TORQUE_CALIBRATION_SAMPLES cfg)"
  using assms
  by (simp_all add: accepted_samples_def steady_samples filter_replicate sum_list_replicate)

lemma long_config_fields [simp]:
  "TORQUE_CALIBRATION_SAMPLES long_config = 600000"
  "TORQUE_STANDSTILL_DEFAULT long_config = 2048"
  by (simp_all add: long_config_def)

text \<open>
  600000 readings of 3995 sum up to 2397000000, which wraps around to -1897967296; the
  quotient by 600000, truncated, is -3163.
\<close>

lemma long_run_wraps:
  "calibrate_torque_sensor long_config (env_steady 3995) boot_state =
     Inr (boot_state\<lparr>torque_standstill_calibrated := - 3163,
                     torque_calibration_complete := True\<rparr>)"
proof -
  have ok: "sample_in_range 3995" by (simp add: sample_in_range_def)
  note acc = steady_accepted [OF ok, of long_config]
  show ?thesis
    by (simp add: calibrate_torque_sensor_def calibration_loop_accepted acc wrap_long_def
        c_div_def c_quot_def)
qed

section \<open>Claims about the calibration\<close>

text \<open>
  C1 (amended). For every calibration run outside debug mode, with a positive sample
  count N small enough for the 32-bit sum of the readings not to overflow (3995 N is at
  most 2147483647), in which the number of samples accepted into 100..3995 is at least
  half of N, the calibration returns with \<^verbatim>\<open>torque_calibration_complete\<close> set and a
  baseline equal to the arithmetic mean of the accepted samples rounded down (the
  integer division of the sum by the count), not rounded to the nearest integer.
\<close>

theorem calibration_complete_mean_truncated:
  assumes "\<not> debug_mode s"
    and "0 < TORQUE_CALIBRATION_SAMPLES cfg"
    and "3995 * TORQUE_CALIBRATION_SAMPLES cfg \<le> 2147483647"
    and "TORQUE_CALIBRATION_SAMPLES cfg \<le> 2 * int (length (accepted_samples cfg env))"
  shows "calibrate_torque_sensor cfg env s =
     Inr (s\<lparr>torque_standstill_calibrated :=
              \<lfloor>real_of_int (sum_list (accepted_samples cfg env)) /
               real (length (accepted_samples cfg env))\<rfloor>,
            torque_calibration_complete := True\<rparr>)"
proof -
  note branch = at_least_half [OF assms(2,4)]
  show ?thesis
    using calibrate_success [OF assms(1,3) branch] by (simp add: floor_mean)
qed

text \<open>The samples 2000, 2010, 2005, 2020, 1995 of the spec are all valid and give 2006.\<close>

theorem calibration_complete_mean_truncated_witness:
  "\<not> debug_mode boot_state \<and> 0 < TORQUE_CALIBRATION_SAMPLES bench_config \<and>
   3995 * TORQUE_CALIBRATION_SAMPLES bench_config \<le> 2147483647 \<and>
   TORQUE_CALIBRATION_SAMPLES bench_config \<le>
     2 * int (length (accepted_samples bench_config
                        (env_of_samples [2000, 2010, 2005, 2020, 1995]))) \<and>
   calibrate_torque_sensor bench_config (env_of_samples [2000, 2010, 2005, 2020, 1995])
       boot_state =
     Inr (boot_state\<lparr>torque_standstill_calibrated := 2006,
                     torque_calibration_complete := True\<rparr>)"
proof -
  have acc: "accepted_samples bench_config (env_of_samples [2000, 2010, 2005, 2020, 1995]) =
      [2000, 2010, 2005, 2020, 1995]"
    by (simp add: accepted_samples_def bench_samples sample_in_range_def)
  have h1: "\<not> debug_mode boot_state" by simp
  have h2: "0 < TORQUE_CALIBRATION_SAMPLES bench_config" by simp
  have fits: "3995 * TORQUE_CALIBRATION_SAMPLES bench_config \<le> 2147483647" by simp
  have h3: "TORQUE_CALIBRATION_SAMPLES bench_config \<le>
     2 * int (length (accepted_samples bench_config
                        (env_of_samples [2000, 2010, 2005, 2020, 1995])))"
    by (simp add: acc)
  show ?thesis
    using h1 h2 fits h3 calibration_complete_mean_truncated [OF h1 h2 fits h3]
    by (simp add: acc)
qed

text \<open>
  The claim as stated fails twice. The five valid samples 100, 101, 101, 101, 101 have
  the mean 100.8, which rounds to 101, and the calibrated baseline is 100. And in the
  run of 600000 readings of 3995, all valid, the sum wraps around and the calibrated
  baseline is -3163, where the mean is 3995.
\<close>

theorem calibration_mean_not_rounded:
  "calibrate_torque_sensor bench_config (env_of_samples [100, 101, 101, 101, 101])
       boot_state =
     Inr (boot_state\<lparr>torque_standstill_calibrated := 100,
                     torque_calibration_complete := True\<rparr>) \<and>
   rounded_mean (accepted_samples bench_config (env_of_samples [100, 101, 101, 101, 101])) =
     101 \<and>
   calibrate_torque_sensor long_config (env_steady 3995) boot_state =
     Inr (boot_state\<lparr>torque_standstill_calibrated := - 3163,
                     torque_calibration_complete := True\<rparr>) \<and>
   rounded_mean (accepted_samples long_config (env_steady 3995)) = 3995"
proof -
  have acc: "accepted_samples bench_config (env_of_samples [100, 101, 101, 101, 101]) =
      [100, 101, 101, 101, 101]"
    by (simp add: accepted_samples_def bench_samples sample_in_range_def)
  have run: "calibrate_torque_sensor bench_config (env_of_samples [100, 101, 101, 101, 101])
       boot_state =
     Inr (boot_state\<lparr>torque_standstill_calibrated := 100,
                     torque_calibration_complete := True\<rparr>)"
    by (simp add: calibrate_torque_sensor_def calibration_loop_accepted acc wrap_long_def
        c_div_def c_quot_def)
  have mean: "rounded_mean [100, 101, 101, 101, 101] = 101"
    by (simp add: rounded_mean_def round_def)
  have ok: "sample_in_range 3995" by (simp add: sample_in_range_def)
  have long_mean: "rounded_mean (accepted_samples long_config (env_steady 3995)) = 3995"
    by (simp add: rounded_mean_def steady_accepted [OF ok])
  from run mean acc long_run_wraps long_mean show ?thesis by simp
qed

text \<open>
  C2 (amended). For every calibration run outside debug mode in which the number of
  accepted samples is below N / 2 as the code computes it (integer division), which
  includes zero accepted samples for every N of at least 2, the calibration returns with
  the baseline equal to \<^verbatim>\<open>TORQUE_STANDSTILL_DEFAULT\<close> exactly and with
  \<^verbatim>\<open>torque_calibration_complete\<close> set to true, the same flag value as after a successful
  run: the program state holds no status that tells the fallback from completion.
\<close>

theorem calibration_fallback_default:
  assumes "\<not> debug_mode s"
    and "int (length (accepted_samples cfg env)) < TORQUE_CALIBRATION_SAMPLES cfg div 2"
  shows "calibrate_torque_sensor cfg env s =
     Inr (s\<lparr>torque_standstill_calibrated := TORQUE_STANDSTILL_DEFAULT cfg,
            torque_calibration_complete := True\<rparr>)"
  using assms(1) below_half [OF assms(2)] by (rule calibrate_fallback)

theorem calibration_fallback_default_witness:
  "\<not> debug_mode boot_state \<and>
   int (length (accepted_samples bench_config (env_of_samples [0, 4095, 4000, 99, 3996]))) <
     TORQUE_CALIBRATION_SAMPLES bench_config div 2 \<and>
   calibrate_torque_sensor bench_config (env_of_samples [0, 4095, 4000, 99, 3996]) boot_state =
     Inr (boot_state\<lparr>torque_standstill_calibrated := 2048,
                     torque_calibration_complete := True\<rparr>)"
proof -
  have acc: "accepted_samples bench_config (env_of_samples [0, 4095, 4000, 99, 3996]) = []"
    by (simp add: accepted_samples_def bench_samples sample_in_range_def)
  have h1: "\<not> debug_mode boot_state" by simp
  have h2: "int (length (accepted_samples bench_config
               (env_of_samples [0, 4095, 4000, 99, 3996]))) <
      TORQUE_CALIBRATION_SAMPLES bench_config div 2"
    by (simp add: acc)
  show ?thesis
    using h1 h2 calibration_fallback_default [OF h1 h2] by simp
qed

text \<open>
  The claim as stated fails: a run without a single valid sample ends in the very state
  in which a run with five valid samples at the default value ends, with
  \<^verbatim>\<open>is_torque_calibration_complete\<close> true in both. No status distinct from completion
  is left to observe.
\<close>

theorem calibration_failure_not_distinct:
  "accepted_samples bench_config (env_of_samples [0, 4095, 4000, 99, 3996]) = [] \<and>
   length (accepted_samples bench_config (env_of_samples [2048, 2048, 2048, 2048, 2048])) = 5 \<and>
   calibrate_torque_sensor bench_config (env_of_samples [0, 4095, 4000, 99, 3996]) boot_state =
     calibrate_torque_sensor bench_config (env_of_samples [2048, 2048, 2048, 2048, 2048])
       boot_state \<and>
   map_sum id is_torque_calibration_complete
     (calibrate_torque_sensor bench_config (env_of_samples [0, 4095, 4000, 99, 3996])
        boot_state) = Inr True"
proof -
  have bad: "accepted_samples bench_config (env_of_samples [0, 4095, 4000, 99, 3996]) = []"
    by (simp add: accepted_samples_def bench_samples sample_in_range_def)
  have good: "accepted_samples bench_config (env_of_samples [2048, 2048, 2048, 2048, 2048]) =
      [2048, 2048, 2048, 2048, 2048]"
    by (simp add: accepted_samples_def bench_samples sample_in_range_def)
  have run_bad: "calibrate_torque_sensor bench_config
      (env_of_samples [0, 4095, 4000, 99, 3996]) boot_state =
     Inr (boot_state\<lparr>torque_standstill_calibrated := 2048,
                     torque_calibration_complete := True\<rparr>)"
    by (simp add: calibrate_torque_sensor_def calibration_loop_accepted bad c_quot_def)
  have run_good: "calibrate_torque_sensor bench_config
      (env_of_samples [2048, 2048, 2048, 2048, 2048]) boot_state =
     Inr (boot_state\<lparr>torque_standstill_calibrated := 2048,
                     torque_calibration_complete := True\<rparr>)"
    by (simp add: calibrate_torque_sensor_def calibration_loop_accepted good wrap_long_def
        c_div_def c_quot_def)
  show ?thesis
    by (simp add: bad good run_bad run_good is_torque_calibration_complete_def)
qed

text \<open>
  With an odd sample count the test \<^verbatim>\<open>valid_samples >= N / 2\<close> lets a run with fewer
  than half of the samples through: two valid samples of five give a baseline.
\<close>

lemma calibration_two_of_five:
  "calibrate_torque_sensor bench_config (env_of_samples [2000, 2010, 0, 0, 0]) boot_state =
     Inr (boot_state\<lparr>torque_standstill_calibrated := 2005,
                     torque_calibration_complete := True\<rparr>)"
proof -
  have acc: "accepted_samples bench_config (env_of_samples [2000, 2010, 0, 0, 0]) =
      [2000, 2010]"
    by (simp add: accepted_samples_def bench_samples sample_in_range_def)
  show ?thesis
    by (simp add: calibrate_torque_sensor_def calibration_loop_accepted acc wrap_long_def
        c_div_def c_quot_def)
qed

text \<open>
  With a sample count of one and the sample invalid, the same test holds with no sample
  accepted and the mean divides by zero.
\<close>

lemma calibration_one_invalid_sample:
  "calibrate_torque_sensor (bench_config\<lparr>TORQUE_CALIBRATION_SAMPLES := 1\<rparr>)
     (env_of_samples [0]) boot_state = Inl IntegerDivideByZero"
proof -
  have "samples_from (bench_config\<lparr>TORQUE_CALIBRATION_SAMPLES := 1\<rparr>) (env_of_samples [0]) 0
      = [0]"
    by (simp add: samples_from_def env_of_samples_def timed_out_def)
  then have acc: "accepted_samples (bench_config\<lparr>TORQUE_CALIBRATION_SAMPLES := 1\<rparr>)
      (env_of_samples [0]) = []"
    by (simp add: accepted_samples_def sample_in_range_def)
  show ?thesis
    by (simp add: calibrate_torque_sensor_def calibration_loop_accepted acc wrap_long_def
        c_div_def c_quot_def)
qed

text \<open>
  The timeout ends the loop early: with the slow clock the second iteration is past the
  five seconds, one sample is taken, and the run falls back to the default. The
  difference of the clock values is right across the wrap-around of the counter.
\<close>

lemma slow_samples: "samples_from bench_config env_slow 0 = [2000]"
  by (simp add: samples_from_def env_slow_def timed_out_def upt_conv_Cons)

lemma calibration_timeout_falls_back:
  "calibrate_torque_sensor bench_config env_slow boot_state =
     Inr (boot_state\<lparr>torque_standstill_calibrated := 2048,
                     torque_calibration_complete := True\<rparr>)"
proof -
  have acc: "accepted_samples bench_config env_slow = [2000]"
    by (simp add: accepted_samples_def slow_samples sample_in_range_def)
  show ?thesis
    by (simp add: calibrate_torque_sensor_def calibration_loop_accepted acc c_quot_def)
qed

text \<open>
  C9 (amended). Whenever a calibration run outside debug mode, with a sample count N
  small enough for the 32-bit sum of the readings not to overflow (3995 N is at most
  2147483647), takes its successful branch (the count of accepted samples is at least
  N / 2 as the code computes it) with at least one sample accepted, which is the case
  whenever at least half of a positive number of samples is accepted (lemma
  \<open>at_least_half\<close>), it returns a baseline within 100..3995.
\<close>

theorem calibrated_baseline_in_range:
  assumes "\<not> debug_mode s"
    and "3995 * TORQUE_CALIBRATION_SAMPLES cfg \<le> 2147483647"
    and "c_quot (TORQUE_CALIBRATION_SAMPLES cfg) 2 \<le> int (length (accepted_samples cfg env))"
    and "accepted_samples cfg env \<noteq> []"
  shows "\<exists>s'. calibrate_torque_sensor cfg env s = Inr s' \<and>
     100 \<le> torque_standstill_calibrated s' \<and> torque_standstill_calibrated s' \<le> 3995"
proof -
  let ?acc = "accepted_samples cfg env"
  let ?n = "int (length ?acc)"
  from assms(4) have pos: "0 < ?n" by simp
  have b: "100 * ?n \<le> sum_list ?acc \<and> sum_list ?acc \<le> 3995 * ?n"
    by (rule accepted_sum_bounds)
  from b pos have "(100 * ?n) div ?n \<le> sum_list ?acc div ?n"
    by (intro zdiv_mono1) simp_all
  with pos have lo: "100 \<le> sum_list ?acc div ?n" by simp
  from b pos have "sum_list ?acc div ?n \<le> (3995 * ?n) div ?n"
    by (intro zdiv_mono1) simp_all
  with pos have hi: "sum_list ?acc div ?n \<le> 3995" by simp
  show ?thesis
    using calibrate_success [OF assms] lo hi by simp
qed

theorem calibrated_baseline_in_range_witness:
  "\<not> debug_mode boot_state \<and>
   3995 * TORQUE_CALIBRATION_SAMPLES bench_config \<le> 2147483647 \<and>
   c_quot (TORQUE_CALIBRATION_SAMPLES bench_config) 2 \<le>
     int (length (accepted_samples bench_config (env_of_samples [3995, 100, 3990, 0, 4095]))) \<and>
   accepted_samples bench_config (env_of_samples [3995, 100, 3990, 0, 4095]) \<noteq> [] \<and>
   (\<exists>s'. calibrate_torque_sensor bench_config (env_of_samples [3995, 100, 3990, 0, 4095])
            boot_state = Inr s' \<and>
      100 \<le> torque_standstill_calibrated s' \<and> torque_standstill_calibrated s' \<le> 3995)"
proof -
  have acc: "accepted_samples bench_config (env_of_samples [3995, 100, 3990, 0, 4095]) =
      [3995, 100, 3990]"
    by (simp add: accepted_samples_def bench_samples sample_in_range_def)
  have h1: "\<not> debug_mode boot_state" by simp
  have fits: "3995 * TORQUE_CALIBRATION_SAMPLES bench_config \<le> 2147483647" by simp
  have h2: "c_quot (TORQUE_CALIBRATION_SAMPLES bench_config) 2 \<le>
     int (length (accepted_samples bench_config (env_of_samples [3995, 100, 3990, 0, 4095])))"
    by (simp add: acc c_quot_def)
  have h3: "accepted_samples bench_config (env_of_samples [3995, 100, 3990, 0, 4095]) \<noteq> []"
    by (simp add: acc)
  show ?thesis
    using h1 fits h2 h3 calibrated_baseline_in_range [OF h1 fits h2 h3] by simp
qed

text \<open>
  The claim as stated fails: in the run of 600000 readings of 3995 every sample is
  accepted, the successful branch is taken, and the sum of the readings wraps around:
  the calibrated baseline is -3163, outside 100..3995.
\<close>

theorem calibrated_baseline_wraps_out_of_range:
  "\<not> debug_mode boot_state \<and>
   length (accepted_samples long_config (env_steady 3995)) = 600000 \<and>
   c_quot (TORQUE_CALIBRATION_SAMPLES long_config) 2 \<le>
     int (length (accepted_samples long_config (env_steady 3995))) \<and>
   calibrate_torque_sensor long_config (env_steady 3995) boot_state =
     Inr (boot_state\<lparr>torque_standstill_calibrated := - 3163,
                     torque_calibration_complete := True\<rparr>) \<and>
   \<not> 100 \<le> torque_standstill_calibrated
             (boot_state\<lparr>torque_standstill_calibrated := - 3163,
                         torque_calibration_complete := True\<rparr>)"
proof -
  have ok: "sample_in_range 3995" by (simp add: sample_in_range_def)
  have len: "length (accepted_samples long_config (env_steady 3995)) = 600000"
    by (simp add: steady_accepted [OF ok])
  from len long_run_wraps show ?thesis by (simp add: c_quot_def)
qed

section \<open>The sensor path of the evaluation\<close>

lemma update_torque_sensor:
  assumes "\<not> (debug_mode s \<and> debug_simulate_torque s)"
  shows "update_torque cfg uds adc s =
    Inr (s\<lparr>raw_torque_value := adc,
           crank_torque_nm := sensor_torque cfg (torque_standstill_calibrated s) adc,
           filtered_torque := sensor_torque cfg (torque_standstill_calibrated s) adc\<rparr>)"
proof -
  from assms have c: "(debug_mode s \<and> debug_simulate_torque s) = False" by simp
  show ?thesis
    unfolding update_torque_def c if_False
    by (simp add: sensor_torque_def max_extent_def Let_def)
qed

lemma evaluate_sensor:
  "\<not> (debug_mode s \<and> debug_simulate_torque s) \<Longrightarrow>
     evaluate cfg uds adc s = Inr (sensor_torque cfg (torque_standstill_calibrated s) adc)"
  by (simp add: evaluate_def update_torque_sensor)

lemma max_extent_pos:
  "TORQUE_MAX_BACKWARD cfg < TORQUE_MAX_FORWARD cfg \<Longrightarrow> 0 < max_extent cfg b"
  by (simp add: max_extent_def max_def)

lemma sensor_torque_dead_zone:
  "\<bar>adc - b\<bar> < TORQUE_THRESHOLD cfg \<Longrightarrow> sensor_torque cfg b adc = Finite 0"
  by (simp add: sensor_torque_def fgt_def Let_def)

text \<open>
  Outside the dead zone the torque is the scaled deviation, clamped; the scaled value is
  the exact one of the model, and the claims use its bounds only.
\<close>

lemma sensor_torque_scaled:
  assumes "TORQUE_MAX_BACKWARD cfg < TORQUE_MAX_FORWARD cfg"
    and "0 \<le> TORQUE_MAX_NM cfg"
    and "TORQUE_THRESHOLD cfg \<le> \<bar>adc - b\<bar>"
  shows "sensor_torque cfg b adc =
    Finite (min (TORQUE_MAX_NM cfg)
      (real_of_int \<bar>adc - b\<bar> / real_of_int (max_extent cfg b) * TORQUE_MAX_NM cfg))"
proof -
  define x where
    "x = real_of_int \<bar>adc - b\<bar> / real_of_int (max_extent cfg b) * TORQUE_MAX_NM cfg"
  from assms(1) have m: "0 < real_of_int (max_extent cfg b)"
    using max_extent_pos by simp
  have nonneg: "0 \<le> x"
    unfolding x_def using m assms(2) by simp
  have scaled: "fmul (fdiv (float_of_int \<bar>adc - b\<bar>) (float_of_int (max_extent cfg b)))
      (Finite (TORQUE_MAX_NM cfg)) = Finite x"
    unfolding x_def using m by simp
  from assms(3) have out: "\<not> \<bar>adc - b\<bar> < TORQUE_THRESHOLD cfg" by simp
  have "sensor_torque cfg b adc =
      (let t1 = (if fgt (Finite x) (Finite (TORQUE_MAX_NM cfg))
                 then Finite (TORQUE_MAX_NM cfg) else Finite x)
       in if flt t1 (Finite 0) then Finite 0 else t1)"
    unfolding sensor_torque_def scaled by (simp only: out if_False Let_def)
  also have "\<dots> = Finite (min (TORQUE_MAX_NM cfg) x)"
    using nonneg assms(2) by (simp add: Let_def fgt_def min_def)
  finally show ?thesis by (simp only: x_def)
qed

lemma sim_state_fields [simp]:
  "debug_mode sim_state"
  "debug_simulate_torque sim_state"
  "torque_standstill_calibrated sim_state = 2048"
  by (simp_all add: sim_state_def)

lemma degenerate_config_fields [simp]:
  "TORQUE_MAX_BACKWARD degenerate_config = 2048"
  "TORQUE_MAX_FORWARD degenerate_config = 2048"
  "TORQUE_THRESHOLD degenerate_config = 50"
  "TORQUE_MAX_NM degenerate_config = 100"
  by (simp_all add: degenerate_config_def)

text \<open>
  A ratio between 0 and 1 times the largest deviation is no larger than the largest
  deviation, and neither is its truncation.
\<close>

lemma ratio_product_le:
  fixes t mx :: real and m :: int
  assumes "0 < t" and "t < mx"
  shows "\<bar>t / mx * real_of_int m\<bar> \<le> \<bar>real_of_int m\<bar>"
proof -
  from assms have q: "0 \<le> t / mx" "t / mx \<le> 1" by simp_all
  have "\<bar>t / mx * real_of_int m\<bar> = t / mx * \<bar>real_of_int m\<bar>"
    by (simp only: abs_mult abs_of_nonneg [OF q(1)])
  also have "\<dots> \<le> 1 * \<bar>real_of_int m\<bar>"
    using q(2) by (intro mult_right_mono) simp_all
  finally show ?thesis by simp
qed

lemma trunc_real_abs_le: "\<bar>real_of_int (trunc_real x)\<bar> \<le> \<bar>x\<bar>"
proof (cases "0 \<le> x")
  case True
  then have "0 \<le> real_of_int \<lfloor>x\<rfloor>" and "real_of_int \<lfloor>x\<rfloor> \<le> x" by simp_all
  with True show ?thesis by (simp add: trunc_real_def)
next
  case False
  then have "real_of_int \<lceil>x\<rceil> \<le> 0" and "x \<le> real_of_int \<lceil>x\<rceil>"
    by (simp_all add: ceiling_le_iff)
  with False show ?thesis by (simp add: trunc_real_def)
qed

text \<open>Either limit deviates from the baseline by the largest deviation.\<close>

lemma far_extent_deviation:
  assumes "TORQUE_MAX_BACKWARD cfg < TORQUE_MAX_FORWARD cfg"
  shows "\<bar>TORQUE_MAX_BACKWARD cfg - b\<bar> = max_extent cfg b \<or>
     \<bar>TORQUE_MAX_FORWARD cfg - b\<bar> = max_extent cfg b"
  using assms by (auto simp: max_extent_def max_def)

section \<open>Claims about the evaluation\<close>




text \<open>
  C4 (amended). On the sensor path, with the backward limit below the forward limit and
  a maximal torque that is not negative, the reported torque lies in
  0..\<^verbatim>\<open>TORQUE_MAX_NM\<close> for every baseline and every reading; and it is exactly
  \<^verbatim>\<open>TORQUE_MAX_NM\<close> for every reading whose deviation from the baseline is at least
  the threshold and at least the largest deviation. One of the two limits deviates by
  the largest deviation (lemma \<open>far_extent_deviation\<close>); the reading there gives the
  maximal torque when the threshold does not exceed the largest deviation.
\<close>

theorem torque_bounded_saturating:
  assumes "\<not> (debug_mode s \<and> debug_simulate_torque s)"
    and "TORQUE_MAX_BACKWARD cfg < TORQUE_MAX_FORWARD cfg"
    and "0 \<le> TORQUE_MAX_NM cfg"
  shows "\<exists>t. evaluate cfg uds r s = Inr (Finite t) \<and> 0 \<le> t \<and> t \<le> TORQUE_MAX_NM cfg \<and>
     (TORQUE_THRESHOLD cfg \<le> \<bar>r - torque_standstill_calibrated s\<bar> \<and>
      max_extent cfg (torque_standstill_calibrated s) \<le> \<bar>r - torque_standstill_calibrated s\<bar>
        \<longrightarrow> t = TORQUE_MAX_NM cfg)"
proof (cases "\<bar>r - torque_standstill_calibrated s\<bar> < TORQUE_THRESHOLD cfg")
  case True
  then show ?thesis
    using assms(1,3) by (simp add: evaluate_sensor sensor_torque_dead_zone)
next
  case False
  let ?b = "torque_standstill_calibrated s"
  let ?x = "real_of_int \<bar>r - ?b\<bar> / real_of_int (max_extent cfg ?b) * TORQUE_MAX_NM cfg"
  from assms(2) have m: "0 < real_of_int (max_extent cfg ?b)"
    using max_extent_pos by simp
  from False have eq: "sensor_torque cfg ?b r = Finite (min (TORQUE_MAX_NM cfg) ?x)"
    using assms(2,3) by (simp add: sensor_torque_scaled)
  have nonneg: "0 \<le> ?x" using m assms(3) by simp
  have sat: "TORQUE_MAX_NM cfg \<le> ?x" if "max_extent cfg ?b \<le> \<bar>r - ?b\<bar>"
  proof -
    from that m have "1 \<le> real_of_int \<bar>r - ?b\<bar> / real_of_int (max_extent cfg ?b)"
      by (simp add: le_divide_eq)
    then have "1 * TORQUE_MAX_NM cfg \<le> ?x"
      using assms(3) by (rule mult_right_mono)
    then show ?thesis by simp
  qed
  show ?thesis
    using assms(1,3) eq nonneg sat by (auto simp: evaluate_sensor min_def)
qed

theorem torque_bounded_saturating_witness:
  "\<not> (debug_mode boot_state \<and> debug_simulate_torque boot_state) \<and>
   TORQUE_MAX_BACKWARD bench_config < TORQUE_MAX_FORWARD bench_config \<and>
   0 \<le> TORQUE_MAX_NM bench_config \<and>
   TORQUE_THRESHOLD bench_config \<le>
     \<bar>TORQUE_MAX_BACKWARD bench_config - torque_standstill_calibrated boot_state\<bar> \<and>
   max_extent bench_config (torque_standstill_calibrated boot_state) \<le>
     \<bar>TORQUE_MAX_BACKWARD bench_config - torque_standstill_calibrated boot_state\<bar> \<and>
   evaluate bench_config id (TORQUE_MAX_BACKWARD bench_config) boot_state = Inr (Finite 100)"
proof -
  have h1: "\<not> (debug_mode boot_state \<and> debug_simulate_torque boot_state)" by simp
  have h2: "TORQUE_MAX_BACKWARD bench_config < TORQUE_MAX_FORWARD bench_config" by simp
  have h3: "0 \<le> TORQUE_MAX_NM bench_config" by simp
  have h4: "TORQUE_THRESHOLD bench_config \<le>
     \<bar>TORQUE_MAX_BACKWARD bench_config - torque_standstill_calibrated boot_state\<bar>" by simp
  have h5: "max_extent bench_config (torque_standstill_calibrated boot_state) \<le>
     \<bar>TORQUE_MAX_BACKWARD bench_config - torque_standstill_calibrated boot_state\<bar>"
    by (simp add: max_extent_def)
  from torque_bounded_saturating [OF h1 h2 h3, of id "TORQUE_MAX_BACKWARD bench_config"]
  obtain t where "evaluate bench_config id (TORQUE_MAX_BACKWARD bench_config) boot_state =
      Inr (Finite t)" and "TORQUE_THRESHOLD bench_config \<le>
       \<bar>TORQUE_MAX_BACKWARD bench_config - torque_standstill_calibrated boot_state\<bar> \<and>
      max_extent bench_config (torque_standstill_calibrated boot_state) \<le>
       \<bar>TORQUE_MAX_BACKWARD bench_config - torque_standstill_calibrated boot_state\<bar>
      \<longrightarrow> t = TORQUE_MAX_NM bench_config"
    by blast
  with h4 h5 have "evaluate bench_config id (TORQUE_MAX_BACKWARD bench_config) boot_state =
      Inr (Finite 100)" by simp
  with h1 h2 h3 h4 h5 show ?thesis by blast
qed

text \<open>
  The claim as stated fails twice. With the baseline at 2048 and the limits at 0 and
  3072, the reading at the forward limit deviates by 1024 of 2048 and gives half the
  maximal torque of 100. And a simulating run returns before the clamp: it reports the
  simulated torque as the simulation step leaves it, 250 here, above the maximal torque,
  whatever the reading; this is why the amended claim is about the sensor path.
\<close>

theorem near_extent_not_saturated:
  "evaluate bench_config id (TORQUE_MAX_FORWARD bench_config) boot_state = Inr (Finite 50) \<and>
   TORQUE_MAX_NM bench_config = 100 \<and>
   evaluate bench_config (sim_target 250) (TORQUE_MAX_FORWARD bench_config) sim_state =
     Inr (Finite 250)"
proof -
  have sensor: "evaluate bench_config id (TORQUE_MAX_FORWARD bench_config) boot_state =
      Inr (Finite 50)"
    by (simp add: evaluate_sensor sensor_torque_def max_extent_def fgt_def)
  have simulated: "evaluate bench_config (sim_target 250) (TORQUE_MAX_FORWARD bench_config)
      sim_state = Inr (Finite 250)"
    by (simp add: evaluate_def update_torque_def sim_target_def fgt_def trunc_real_def)
  from sensor simulated show ?thesis by simp
qed

text \<open>
  C5. For every reading \<open>r\<close> with baseline - T < \<open>r\<close> < baseline + T, where T is
  \<^verbatim>\<open>TORQUE_THRESHOLD\<close>, the evaluator reports a torque of exactly zero whenever it is
  not simulating, which covers every run outside debug mode.
\<close>

theorem dead_zone_zero:
  assumes "\<not> (debug_mode s \<and> debug_simulate_torque s)"
    and "torque_standstill_calibrated s - TORQUE_THRESHOLD cfg < r"
    and "r < torque_standstill_calibrated s + TORQUE_THRESHOLD cfg"
  shows "update_torque cfg uds r s =
     Inr (s\<lparr>raw_torque_value := r, crank_torque_nm := Finite 0, filtered_torque := Finite 0\<rparr>)"
proof -
  from assms(2,3) have "\<bar>r - torque_standstill_calibrated s\<bar> < TORQUE_THRESHOLD cfg"
    by linarith
  then show ?thesis
    using assms(1) by (simp add: update_torque_sensor sensor_torque_dead_zone)
qed

theorem dead_zone_zero_witness:
  "\<not> (debug_mode boot_state \<and> debug_simulate_torque boot_state) \<and>
   torque_standstill_calibrated boot_state - TORQUE_THRESHOLD bench_config < 2097 \<and>
   2097 < torque_standstill_calibrated boot_state + TORQUE_THRESHOLD bench_config \<and>
   update_torque bench_config id 2097 boot_state =
     Inr (boot_state\<lparr>raw_torque_value := 2097, crank_torque_nm := Finite 0,
                     filtered_torque := Finite 0\<rparr>)"
proof -
  have h1: "\<not> (debug_mode boot_state \<and> debug_simulate_torque boot_state)" by simp
  have h2: "torque_standstill_calibrated boot_state - TORQUE_THRESHOLD bench_config < 2097"
    by simp
  have h3: "2097 < torque_standstill_calibrated boot_state + TORQUE_THRESHOLD bench_config"
    by simp
  show ?thesis
    using h1 h2 h3 dead_zone_zero [OF h1 h2 h3, of id] by simp
qed

text \<open>
  C6. For every deviation \<open>d\<close> and every baseline, the readings baseline + \<open>d\<close> and
  baseline - \<open>d\<close> give the same torque. On the sensor path the torque is a value
  (lemma \<open>evaluate_sensor\<close>) that depends on the magnitude of the deviation only; a
  simulating run does not look at the reading.
\<close>

theorem evaluate_symmetric:
  "evaluate cfg uds (torque_standstill_calibrated s + d) s =
   evaluate cfg uds (torque_standstill_calibrated s - d) s"
proof (cases "debug_mode s \<and> debug_simulate_torque s")
  case True
  then show ?thesis by (simp add: evaluate_def update_torque_def)
next
  case False
  then show ?thesis by (simp add: evaluate_sensor sensor_torque_def)
qed

text \<open>A deviation of 512 counts to either side of the baseline 2048 gives 25 Nm.\<close>

theorem evaluate_symmetric_witness:
  "evaluate bench_config id (torque_standstill_calibrated boot_state + 512) boot_state =
     Inr (Finite 25) \<and>
   evaluate bench_config id (torque_standstill_calibrated boot_state - 512) boot_state =
     Inr (Finite 25)"
proof -
  have "evaluate bench_config id (torque_standstill_calibrated boot_state - 512) boot_state =
     Inr (Finite 25)"
    by (simp add: evaluate_sensor sensor_torque_def max_extent_def fgt_def)
  with evaluate_symmetric [of bench_config id boot_state 512] show ?thesis by simp
qed

text \<open>
  C8. In debug mode with a simulated torque \<open>t\<close> strictly between 0 and
  \<^verbatim>\<open>TORQUE_MAX_NM\<close>, a cycle reports exactly \<open>t\<close> as torque and as filtered torque,
  with no dead zone applied, and stores a raw value that the inverse scaling puts no
  farther from the baseline than the largest deviation. The result is a function of the
  state after the simulation step alone, whatever the ADC reads. The largest deviation
  is taken to be at most 16777216 in magnitude, so that it is a \<^verbatim>\<open>float\<close> exactly.
\<close>

theorem simulation_reports_target:
  assumes "debug_mode s" and "debug_simulate_torque s"
    and "debug_torque_nm (uds s) = Finite t"
    and "0 < t" and "t < TORQUE_MAX_NM cfg"
    and "\<bar>max_extent cfg (torque_standstill_calibrated (uds s))\<bar> \<le> 16777216"
  shows "\<exists>raw. update_torque cfg uds adc s =
       Inr ((uds s)\<lparr>crank_torque_nm := Finite t, filtered_torque := Finite t,
              raw_torque_value := raw\<rparr>) \<and>
     \<bar>raw - torque_standstill_calibrated (uds s)\<bar> \<le>
       \<bar>max_extent cfg (torque_standstill_calibrated (uds s))\<bar>"
proof -
  let ?m = "max_extent cfg (torque_standstill_calibrated (uds s))"
  let ?x = "t / TORQUE_MAX_NM cfg * real_of_int ?m"
  from assms(4,5) have mx: "TORQUE_MAX_NM cfg \<noteq> 0" by simp
  have le: "\<bar>?x\<bar> \<le> \<bar>real_of_int ?m\<bar>"
    using assms(4,5) by (rule ratio_product_le)
  have "\<bar>real_of_int ?m\<bar> \<le> 16777216"
    using assms(6) by (simp flip: of_int_abs)
  with le have range: "- 2147483649 < ?x \<and> ?x < 2147483648" by linarith
  have cast: "int_of_float (fmul (fdiv (Finite t) (Finite (TORQUE_MAX_NM cfg)))
        (float_of_int ?m)) = Inr (trunc_real ?x)"
    using mx range by simp
  let ?raw = "torque_standstill_calibrated (uds s) + trunc_real ?x"
  have run: "update_torque cfg uds adc s =
     Inr ((uds s)\<lparr>crank_torque_nm := Finite t, filtered_torque := Finite t,
            raw_torque_value := ?raw\<rparr>)"
    using assms(1,2,3,4) cast
    by (simp add: update_torque_def Let_def fgt_def max_extent_def)
  have "\<bar>real_of_int (trunc_real ?x)\<bar> \<le> \<bar>real_of_int ?m\<bar>"
    using trunc_real_abs_le [of ?x] le by linarith
  then have "\<bar>trunc_real ?x\<bar> \<le> \<bar>?m\<bar>"
    by (simp only: of_int_le_iff flip: of_int_abs)
  then have dev: "\<bar>?raw - torque_standstill_calibrated (uds s)\<bar> \<le> \<bar>?m\<bar>"
    by simp
  from run dev have "update_torque cfg uds adc s =
       Inr ((uds s)\<lparr>crank_torque_nm := Finite t, filtered_torque := Finite t,
              raw_torque_value := ?raw\<rparr>) \<and>
     \<bar>?raw - torque_standstill_calibrated (uds s)\<bar> \<le> \<bar>?m\<bar>"
    by (rule conjI)
  then show ?thesis by (rule exI)
qed

text \<open>
  A simulated torque of 1.5625 Nm of 100 maps to a deviation of 32 counts, inside the
  dead zone of 50 counts, and is reported as it is.
\<close>

theorem simulation_reports_target_witness:
  "debug_mode sim_state \<and> debug_simulate_torque sim_state \<and>
   debug_torque_nm (sim_target (25 / 16) sim_state) = Finite (25 / 16) \<and>
   (0::real) < 25 / 16 \<and> 25 / 16 < TORQUE_MAX_NM bench_config \<and>
   \<bar>max_extent bench_config (torque_standstill_calibrated (sim_target (25 / 16) sim_state))\<bar>
     \<le> 16777216 \<and>
   (\<exists>raw. update_torque bench_config (sim_target (25 / 16)) 777 sim_state =
       Inr ((sim_target (25 / 16) sim_state)\<lparr>crank_torque_nm := Finite (25 / 16),
              filtered_torque := Finite (25 / 16), raw_torque_value := raw\<rparr>) \<and>
     \<bar>raw - torque_standstill_calibrated (sim_target (25 / 16) sim_state)\<bar> \<le>
       \<bar>max_extent bench_config
          (torque_standstill_calibrated (sim_target (25 / 16) sim_state))\<bar>) \<and>
   update_torque bench_config (sim_target (25 / 16)) 777 sim_state =
     Inr (sim_state\<lparr>debug_torque_nm := Finite (25 / 16), crank_torque_nm := Finite (25 / 16),
                    filtered_torque := Finite (25 / 16), raw_torque_value := 2080\<rparr>)"
proof -
  have h1: "debug_mode sim_state" by simp
  have h2: "debug_simulate_torque sim_state" by simp
  have h3: "debug_torque_nm (sim_target (25 / 16) sim_state) = Finite (25 / 16)"
    by (simp add: sim_target_def)
  have h4: "(0::real) < 25 / 16" by simp
  have h5: "25 / 16 < TORQUE_MAX_NM bench_config" by simp
  have b: "torque_standstill_calibrated (sim_target (25 / 16) sim_state) = 2048"
    by (simp add: sim_target_def)
  have h6: "\<bar>max_extent bench_config
      (torque_standstill_calibrated (sim_target (25 / 16) sim_state))\<bar> \<le> 16777216"
    by (simp add: b max_extent_def)
  have run: "update_torque bench_config (sim_target (25 / 16)) 777 sim_state =
     Inr (sim_state\<lparr>debug_torque_nm := Finite (25 / 16), crank_torque_nm := Finite (25 / 16),
                    filtered_torque := Finite (25 / 16), raw_torque_value := 2080\<rparr>)"
    by (simp add: update_torque_def sim_target_def fgt_def trunc_real_def)
  note inst = simulation_reports_target [where s = sim_state and uds = "sim_target (25 / 16)"
      and t = "25 / 16" and cfg = bench_config and adc = 777, OF h1 h2 h3 h4 h5 h6]
  from h1 h2 h3 h4 h5 h6 inst run show ?thesis by blast
qed

section \<open>A guarded reader never reads torn data\<close>

lemma publish_controller_shape:
  "publish_controller k =
     SemaphoreTake 10 # map (\<lambda>f. Store f k) vesc_fields @ [SemaphoreGive]"
  by (simp add: publish_controller_def vesc_fields_def)

lemma producer_Nil [simp]: "producer [] = []"
  by (simp add: producer_def)

lemma producer_Cons:
  "producer (k # ks) =
     SemaphoreTake 10 # map (\<lambda>f. Store f k) vesc_fields @ SemaphoreGive # producer ks"
  by (simp add: producer_def publish_controller_shape)

lemma untorn_Nil [simp]: "untorn []"
  by (simp add: untorn_def)

lemma untorn_snapshot:
  assumes "uniform st"
  shows "untorn (map (\<lambda>f. (f, st f)) gs)"
proof -
  from assms obtain k where k: "\<forall>f \<in> set vesc_fields. st f = k"
    unfolding uniform_def by blast
  let ?vs = "map snd (filter (\<lambda>x. fst x \<in> set vesc_fields) (map (\<lambda>f. (f, st f)) gs))"
  have all: "\<forall>v \<in> set ?vs. v = k" using k by auto
  have "list_all (\<lambda>v. v = hd ?vs) ?vs"
  proof (cases ?vs)
    case Nil
    then show ?thesis by simp
  next
    case (Cons v vs)
    with all have "hd ?vs = k" by simp
    with all show ?thesis by (simp add: list_all_iff)
  qed
  then show ?thesis by (simp add: untorn_def Let_def)
qed

lemma cons_ok_other:
  "cons_ok gs h st c obs \<Longrightarrow> h \<noteq> Some 1 \<Longrightarrow> h' \<noteq> Some 1 \<Longrightarrow> cons_ok gs h' st' c obs"
  by (auto simp: cons_ok_def)

lemma prod_ok_other:
  "prod_ok h st p \<Longrightarrow> h \<noteq> Some 0 \<Longrightarrow> h' \<noteq> Some 0 \<Longrightarrow> prod_ok h' st' p"
  by (auto simp: prod_ok_def)

lemma tear_invI:
  "prod_ok h st p \<Longrightarrow> cons_ok gs h st c obs \<Longrightarrow> (h \<noteq> Some 0 \<longrightarrow> uniform st) \<Longrightarrow>
   h = None \<or> h = Some 0 \<or> h = Some 1 \<Longrightarrow>
   tear_inv gs \<lparr>store = st, holder = h,
     tasks = [\<lparr>program = p, observed = po\<rparr>, \<lparr>program = c, observed = obs\<rparr>]\<rparr>"
  unfolding tear_inv_def by blast

lemma tear_inv_step:
  assumes "tear_inv gs sys"
  shows "tear_inv gs (step i sys)"
proof -
  from assms obtain st h p po c obs where
    sys: "sys = \<lparr>store = st, holder = h,
               tasks = [\<lparr>program = p, observed = po\<rparr>, \<lparr>program = c, observed = obs\<rparr>]\<rparr>"
    and P: "prod_ok h st p" and C: "cons_ok gs h st c obs"
    and U: "h \<noteq> Some 0 \<longrightarrow> uniform st" and H: "h = None \<or> h = Some 0 \<or> h = Some 1"
    unfolding tear_inv_def by blast
  consider (producer) "i = 0" | (consumer) "i = 1" | (none) "2 \<le> i" by linarith
  then show ?thesis
  proof cases
    case none
    then have "step i sys = sys" by (simp add: step_def sys)
    with assms show ?thesis by simp
  next
    case producer
    from P consider
      (idle) ks where "h \<noteq> Some 0" "p = producer ks"
    | (inside) k "done" todo ks where "h = Some 0" "vesc_fields = done @ todo"
        "p = map (\<lambda>f. Store f k) todo @ SemaphoreGive # producer ks" "\<forall>f \<in> set done. st f = k"
      unfolding prod_ok_def by blast
    then show ?thesis
    proof cases
      case idle
      show ?thesis
      proof (cases ks)
        case Nil
        with idle have "step i sys = sys" by (simp add: step_def sys producer)
        with assms show ?thesis by simp
      next
        case (Cons k ks')
        with idle have p: "p = SemaphoreTake 10 #
            map (\<lambda>f. Store f k) vesc_fields @ SemaphoreGive # producer ks'"
          by (simp add: producer_Cons)
        show ?thesis
        proof (cases h)
          case None
          then have s: "step i sys = \<lparr>store = st, holder = Some 0,
              tasks = [\<lparr>program = map (\<lambda>f. Store f k) vesc_fields @ SemaphoreGive # producer ks',
                         observed = po\<rparr>, \<lparr>program = c, observed = obs\<rparr>]\<rparr>"
            by (simp add: step_def sys producer p)
          have "prod_ok (Some 0) st
              (map (\<lambda>f. Store f k) vesc_fields @ SemaphoreGive # producer ks')"
            unfolding prod_ok_def by (intro disjI2 conjI exI [of _ k] exI [of _ "[]"]
                exI [of _ vesc_fields] exI [of _ ks']) simp_all
          moreover have "cons_ok gs (Some 0) st c obs"
            by (rule cons_ok_other [OF C]) (simp_all add: None)
          ultimately show ?thesis unfolding s by (intro tear_invI) simp_all
        next
          case (Some j)
          then have s: "step i sys = \<lparr>store = st, holder = h,
              tasks = [\<lparr>program = [], observed = po\<rparr>, \<lparr>program = c, observed = obs\<rparr>]\<rparr>"
            by (simp add: step_def sys producer p)
          from idle(1) have "prod_ok h st []"
            unfolding prod_ok_def by (intro disjI1 conjI exI [of _ "[]"]) simp_all
          with C U H show ?thesis unfolding s by (intro tear_invI)
        qed
      qed
    next
      case inside
      show ?thesis
      proof (cases todo)
        case Nil
        with inside have s: "step i sys = \<lparr>store = st, holder = None,
            tasks = [\<lparr>program = producer ks, observed = po\<rparr>, \<lparr>program = c, observed = obs\<rparr>]\<rparr>"
          by (simp add: step_def sys producer)
        have "prod_ok None st (producer ks)"
          unfolding prod_ok_def by (intro disjI1 conjI exI [of _ ks]) simp_all
        moreover have "cons_ok gs None st c obs"
          by (rule cons_ok_other [OF C]) (simp_all add: inside(1))
        moreover from inside Nil have "uniform st"
          unfolding uniform_def by auto
        ultimately show ?thesis unfolding s by (intro tear_invI) simp_all
      next
        case (Cons f todo')
        with inside have s: "step i sys = \<lparr>store = st(f := k), holder = Some 0,
            tasks = [\<lparr>program = map (\<lambda>f. Store f k) todo' @ SemaphoreGive # producer ks,
                       observed = po\<rparr>, \<lparr>program = c, observed = obs\<rparr>]\<rparr>"
          by (simp add: step_def sys producer)
        from inside Cons have "prod_ok (Some 0) (st(f := k))
            (map (\<lambda>f. Store f k) todo' @ SemaphoreGive # producer ks)"
          unfolding prod_ok_def
          by (intro disjI2 conjI exI [of _ k] exI [of _ "done @ [f]"] exI [of _ todo']
              exI [of _ ks]) simp_all
        moreover have "cons_ok gs (Some 0) (st(f := k)) c obs"
          by (rule cons_ok_other [OF C]) (simp_all add: inside(1))
        ultimately show ?thesis unfolding s by (intro tear_invI) simp_all
      qed
    qed
  next
    case consumer
    from C consider
      (waiting) "h \<noteq> Some 1" "c = guarded_reader gs" "obs = []"
    | (reading) "done" todo where "h = Some 1" "gs = done @ todo"
        "c = map Load todo @ [SemaphoreGive]" "obs = map (\<lambda>f. (f, st f)) done"
    | (finished) "h \<noteq> Some 1" "c = []" "untorn obs"
      unfolding cons_ok_def by blast
    then show ?thesis
    proof cases
      case waiting
      show ?thesis
      proof (cases h)
        case None
        with waiting have s: "step i sys = \<lparr>store = st, holder = Some 1,
            tasks = [\<lparr>program = p, observed = po\<rparr>,
                     \<lparr>program = map Load gs @ [SemaphoreGive], observed = []\<rparr>]\<rparr>"
          by (simp add: step_def sys consumer guarded_reader_def)
        have "cons_ok gs (Some 1) st (map Load gs @ [SemaphoreGive]) []"
          unfolding cons_ok_def
          by (intro disjI2 disjI1 conjI exI [of _ "[]"] exI [of _ gs]) simp_all
        moreover have "prod_ok (Some 1) st p"
          by (rule prod_ok_other [OF P]) (simp_all add: None)
        moreover from U None have "uniform st" by simp
        ultimately show ?thesis unfolding s by (intro tear_invI) simp_all
      next
        case (Some j)
        with waiting have s: "step i sys = \<lparr>store = st, holder = h,
            tasks = [\<lparr>program = p, observed = po\<rparr>, \<lparr>program = [], observed = []\<rparr>]\<rparr>"
          by (simp add: step_def sys consumer guarded_reader_def)
        from waiting(1) have "cons_ok gs h st [] []"
          unfolding cons_ok_def by simp
        with P U H show ?thesis unfolding s by (intro tear_invI)
      qed
    next
      case reading
      from U reading(1) have uni: "uniform st" by simp
      show ?thesis
      proof (cases todo)
        case Nil
        with reading have s: "step i sys = \<lparr>store = st, holder = None,
            tasks = [\<lparr>program = p, observed = po\<rparr>, \<lparr>program = [], observed = obs\<rparr>]\<rparr>"
          by (simp add: step_def sys consumer)
        from uni reading(4) have "untorn obs" by (simp add: untorn_snapshot)
        then have "cons_ok gs None st [] obs"
          unfolding cons_ok_def by simp
        moreover have "prod_ok None st p"
          by (rule prod_ok_other [OF P]) (simp_all add: reading(1))
        ultimately show ?thesis using uni unfolding s by (intro tear_invI) simp_all
      next
        case (Cons f todo')
        with reading have s: "step i sys = \<lparr>store = st, holder = Some 1,
            tasks = [\<lparr>program = p, observed = po\<rparr>,
                     \<lparr>program = map Load todo' @ [SemaphoreGive],
                      observed = obs @ [(f, st f)]\<rparr>]\<rparr>"
          by (simp add: step_def sys consumer)
        from reading Cons have "cons_ok gs (Some 1) st (map Load todo' @ [SemaphoreGive])
            (obs @ [(f, st f)])"
          unfolding cons_ok_def
          by (intro disjI2 disjI1 conjI exI [of _ "done @ [f]"] exI [of _ todo']) simp_all
        with P U H reading(1) show ?thesis unfolding s by (intro tear_invI) simp_all
      qed
    next
      case finished
      then have "step i sys = sys" by (simp add: step_def sys consumer)
      with assms show ?thesis by simp
    qed
  qed
qed

lemma tear_inv_run: "tear_inv gs sys \<Longrightarrow> tear_inv gs (run schedule sys)"
  unfolding run_def by (induction schedule arbitrary: sys) (simp_all add: tear_inv_step)

lemma tear_inv_start: "tear_inv gs (start (producer ks) (guarded_reader gs))"
  unfolding start_def
proof (intro tear_invI)
  show "prod_ok None (\<lambda>f. 1) (producer ks)"
    unfolding prod_ok_def by (intro disjI1 conjI exI [of _ ks]) simp_all
  show "cons_ok gs None (\<lambda>f. 1) (guarded_reader gs) []"
    unfolding cons_ok_def by simp
  show "None \<noteq> Some 0 \<longrightarrow> uniform (\<lambda>f. 1)"
    by (simp add: uniform_def)
qed simp

lemma tear_inv_untorn:
  assumes "tear_inv gs sys"
  shows "untorn (observed (tasks sys ! 1))"
proof -
  from assms obtain st h p po c obs where
    sys: "sys = \<lparr>store = st, holder = h,
               tasks = [\<lparr>program = p, observed = po\<rparr>, \<lparr>program = c, observed = obs\<rparr>]\<rparr>"
    and C: "cons_ok gs h st c obs" and U: "h \<noteq> Some 0 \<longrightarrow> uniform st"
    unfolding tear_inv_def by blast
  from C U have "untorn obs"
    unfolding cons_ok_def by (auto simp: untorn_snapshot)
  then show ?thesis by (simp add: sys)
qed

text \<open>
  Whatever the schedule and however many transactions the producer runs, a reader that
  keeps the lock discipline reads values of one transaction only, or nothing when it
  finds the semaphore held.
\<close>

lemma guarded_reader_never_torn:
  "untorn (observed (tasks (run schedule (start (producer ks) (guarded_reader gs))) ! 1))"
  by (rule tear_inv_untorn [OF tear_inv_run [OF tear_inv_start]])

text \<open>Both BLE tasks are guarded readers.\<close>

lemma ble_readers_guarded:
  "updateBLEVescData =
     guarded_reader [Rpm, Duty_cycle, Temp_mosfet, Temp_motor, Battery_voltage, Amp_hours,
       Watt_hours]"
  "updateBLETelemetryData True =
     guarded_reader [Speed_kmh, Cadence_rpm, Filtered_torque, Battery_percentage,
       Actual_current, Actual_current, Current_mode, Current_mode, Current_mode, Motor_enabled,
       Actual_current, Battery_voltage, Temp_mosfet, Temp_motor]"
  "updateBLETelemetryData False = guarded_reader []"
  by (simp_all add: updateBLEVescData_def updateBLETelemetryData_def guarded_reader_def)

lemma ble_tasks_never_torn:
  "untorn (observed (tasks (run schedule (start (producer ks) updateBLEVescData)) ! 1))"
  "untorn (observed (tasks (run schedule
     (start (producer ks) (updateBLETelemetryData characteristics_initialized))) ! 1))"
  by (cases characteristics_initialized;
      simp only: ble_readers_guarded guarded_reader_never_torn)+

section \<open>Claims about the telemetry tasks\<close>

text \<open>
  C10. A BLE mode-control write calls \<^verbatim>\<open>changeAssistMode\<close> exactly when the written
  value is not empty and its first byte is below \<^verbatim>\<open>NUM_ACTIVE_PROFILES\<close>, and then with
  that byte; an empty write and a write with the first byte out of range call nothing
  that changes the mode and leave the program as it is.
\<close>

theorem mode_write_changes_mode_iff_valid:
  "(ChangeAssistMode m \<in> set (EBikeModeControlCallbacks_onWrite profiles val) \<longleftrightarrow>
      val \<noteq> [] \<and> uint (hd val) < NUM_ACTIVE_PROFILES profiles \<and> m = uint (hd val)) \<and>
   perform_all changeAssistMode (EBikeModeControlCallbacks_onWrite profiles val) w =
     (if val \<noteq> [] \<and> uint (hd val) < NUM_ACTIVE_PROFILES profiles
      then changeAssistMode (uint (hd val)) w else w)"
proof (cases val)
  case Nil
  then show ?thesis
    by (simp add: EBikeModeControlCallbacks_onWrite_def perform_all_def)
next
  case (Cons new_mode rest)
  show ?thesis
  proof (cases "uint new_mode < NUM_ACTIVE_PROFILES profiles")
    case True
    with Cons show ?thesis
      by (auto simp: EBikeModeControlCallbacks_onWrite_def perform_all_def)
  next
    case False
    with Cons show ?thesis
      by (auto simp: EBikeModeControlCallbacks_onWrite_def perform_all_def)
  qed
qed

text \<open>With three profiles: the byte 2 changes the mode, the byte 3 and no byte do not.\<close>

theorem mode_write_changes_mode_iff_valid_witness:
  "EBikeModeControlCallbacks_onWrite bench_profiles [2, 7] =
     [Serial_printf ''BLE: Mode change request to %d\<newline>'' [2], ChangeAssistMode 2,
      AddLogMessage ''BLE Mode changed to: Turbo''] \<and>
   perform_all (\<lambda>m w. m) (EBikeModeControlCallbacks_onWrite bench_profiles [2, 7]) 0 = 2 \<and>
   perform_all (\<lambda>m w. m) (EBikeModeControlCallbacks_onWrite bench_profiles [3]) 0 = 0 \<and>
   perform_all (\<lambda>m w. m) (EBikeModeControlCallbacks_onWrite bench_profiles []) 0 = 0"
proof -
  have n: "NUM_ACTIVE_PROFILES bench_profiles = 3"
    and name: "AVAILABLE_PROFILES_name bench_profiles 2 = ''Turbo''"
    by (simp_all add: bench_profiles_def)
  have calls: "EBikeModeControlCallbacks_onWrite bench_profiles [2, 7] =
     [Serial_printf ''BLE: Mode change request to %d\<newline>'' [2], ChangeAssistMode 2,
      AddLogMessage ''BLE Mode changed to: Turbo'']"
    by (simp add: EBikeModeControlCallbacks_onWrite_def n name)
  from mode_write_changes_mode_iff_valid [of _ bench_profiles "[2, 7]" "\<lambda>m w. m" 0]
  have a: "perform_all (\<lambda>m w. m) (EBikeModeControlCallbacks_onWrite bench_profiles [2, 7]) 0 = 2"
    by (simp add: n)
  from mode_write_changes_mode_iff_valid [of _ bench_profiles "[3]" "\<lambda>m w. m" 0]
  have b: "perform_all (\<lambda>m w. m) (EBikeModeControlCallbacks_onWrite bench_profiles [3]) 0 = 0"
    by (simp add: n)
  from mode_write_changes_mode_iff_valid [of _ bench_profiles "[]" "\<lambda>m w. m" 0]
  have c: "perform_all (\<lambda>m w. m) (EBikeModeControlCallbacks_onWrite bench_profiles []) 0 = 0"
    by simp
  from calls a b c show ?thesis by simp
qed

text \<open>
  C7. The claim holds of the BLE tasks and fails of the WiFi status handler.
  \<^verbatim>\<open>handleStatusAPI\<close> reads four shared fields without taking the semaphore. When it
  runs after a producer has taken the semaphore and written the speed of transaction 2,
  it reads that speed next to the battery percentage of transaction 1: torn data. The
  BLE tasks keep the discipline (and never read torn data, lemma
  \<open>ble_tasks_never_torn\<close>); in the same situation \<^verbatim>\<open>updateBLEVescData\<close> finds the
  semaphore held, skips its cycle and reads nothing.
\<close>

theorem status_api_torn_read:
  "\<not> lock_disciplined handleStatusAPI \<and>
   observed (tasks (run [0, 0, 1, 1, 1, 1] (start (publish_controller 2) handleStatusAPI)) ! 1) =
     [(Speed_kmh, 2), (Battery_percentage, 1), (Current_mode, 1), (Filtered_torque, 1)] \<and>
   \<not> untorn (observed (tasks (run [0, 0, 1, 1, 1, 1]
             (start (publish_controller 2) handleStatusAPI)) ! 1)) \<and>
   lock_disciplined updateBLEVescData \<and>
   lock_disciplined (updateBLETelemetryData True) \<and>
   lock_disciplined (updateBLETelemetryData False) \<and>
   observed (tasks (run [0, 0, 1, 1, 1, 1] (start (publish_controller 2) updateBLEVescData)) ! 1) =
     []"
proof -
  have unguarded: "\<not> lock_disciplined handleStatusAPI"
    by (simp add: lock_disciplined_def handleStatusAPI_def)
  have read: "observed (tasks (run [0, 0, 1, 1, 1, 1]
      (start (publish_controller 2) handleStatusAPI)) ! 1) =
     [(Speed_kmh, 2), (Battery_percentage, 1), (Current_mode, 1), (Filtered_torque, 1)]"
    by (simp add: run_def start_def step_def publish_controller_def handleStatusAPI_def)
  have torn: "\<not> untorn [(Speed_kmh, 2), (Battery_percentage, 1), (Current_mode, 1),
      (Filtered_torque, 1)]"
    by (simp add: untorn_def vesc_fields_def)
  have ble: "lock_disciplined updateBLEVescData"
    "lock_disciplined (updateBLETelemetryData True)"
    "lock_disciplined (updateBLETelemetryData False)"
    by (simp_all add: lock_disciplined_def updateBLEVescData_def updateBLETelemetryData_def)
  have skipped: "observed (tasks (run [0, 0, 1, 1, 1, 1]
      (start (publish_controller 2) updateBLEVescData)) ! 1) = []"
    by (simp add: run_def start_def step_def publish_controller_def updateBLEVescData_def)
  from unguarded read torn ble skipped show ?thesis by simp
qed

end
